theory Spec2Isabelle
  imports Complex_Main "HOL-Library.Sublist"
begin

section \<open>Strings\<close>

text \<open>
  A JavaScript string is a sequence of UTF-16 code units. The keyword tables and the
  answer templates of \<^verbatim>\<open>src/App.js\<close> mix ASCII, Devanagari and emoji, so a
  string is modelled as the list of its code units; \<open>asc\<close> embeds an ASCII literal,
  and every other code unit is written as a hexadecimal number.
\<close>

type_synonym jstring = "nat list"

definition asc :: "string \<Rightarrow> jstring" where
  "asc s = map of_char s"

text \<open>\<^verbatim>\<open>q.includes(t)\<close>: \<open>t\<close> occurs in \<open>q\<close> as a contiguous run of code units.\<close>

fun str_includes :: "jstring \<Rightarrow> jstring \<Rightarrow> bool" where
  "str_includes [] t = (t = [])"
| "str_includes (x # xs) t = (prefix t (x # xs) \<or> str_includes xs t)"

section \<open>The runtime\<close>

text \<open>
  Two things the program takes from the JavaScript runtime are outside the repository:
  the Unicode case tables behind \<^verbatim>\<open>String.prototype.toLowerCase\<close>, and the text a
  template literal gives a value inherited from \<^verbatim>\<open>Object.prototype\<close> (a built-in
  function prints as implementation-defined source text). Both are parameters of the
  model.
\<close>

record runtime =
  toLowerCase :: "jstring \<Rightarrow> jstring"
  nativeText :: "jstring \<Rightarrow> jstring"

text \<open>
  On a string of ASCII and Devanagari code units every runtime lower-cases the letters
  \<open>A\<close> to \<open>Z\<close> and leaves the rest as it is: the Devanagari block has no case.
\<close>

definition lower_unit :: "nat \<Rightarrow> nat" where
  "lower_unit u = (if 0x41 \<le> u \<and> u \<le> 0x5A then u + 0x20 else u)"

definition plain_unit :: "nat \<Rightarrow> bool" where
  "plain_unit u = (u < 0x80 \<or> (0x900 \<le> u \<and> u \<le> 0x97F))"

definition conforming :: "runtime \<Rightarrow> bool" where
  "conforming rt = (\<forall>s. list_all plain_unit s \<longrightarrow> toLowerCase rt s = map lower_unit s)"

text \<open>
  A concrete runtime for evaluating the model on ASCII and Devanagari input. Its
  \<open>nativeText\<close> is what V8 prints.
\<close>

definition v8_text :: "jstring \<Rightarrow> jstring" where
  "v8_text name =
    (if name = asc ''__proto__'' then asc ''[object Object]''
     else if name = asc ''constructor'' then asc ''function Object() { [native code] }''
     else asc ''function '' @ name @ asc ''() { [native code] }'')"

definition ascii_runtime :: runtime where
  "ascii_runtime = \<lparr>toLowerCase = map lower_unit, nativeText = v8_text\<rparr>"

section \<open>Normalising the question\<close>

text \<open>
  \<^verbatim>\<open>const q = msg.toLowerCase().replace(/[?\u0964!,]/g, " ").replace(/\s+/g, " ").trim();\<close>
  where \<^verbatim>\<open>\u0964\<close> stands for the Devanagari danda that the source writes literally.
\<close>

definition is_punct :: "nat \<Rightarrow> bool" where
  "is_punct u = (u = 0x3F \<or> u = 0x964 \<or> u = 0x21 \<or> u = 0x2C)"

definition replace_punct :: "jstring \<Rightarrow> jstring" where
  "replace_punct s = map (\<lambda>u. if is_punct u then 0x20 else u) s"

text \<open>
  The class \<^verbatim>\<open>\s\<close>, which is also what \<^verbatim>\<open>trim\<close> removes: the white space and
  line terminator code points of ECMAScript.
\<close>

definition is_space :: "nat \<Rightarrow> bool" where
  "is_space u =
    (u \<in> {0x9, 0xA, 0xB, 0xC, 0xD, 0x20, 0xA0, 0x1680, 0x2028, 0x2029, 0x202F, 0x205F,
          0x3000, 0xFEFF}
     \<or> (0x2000 \<le> u \<and> u \<le> 0x200A))"

text \<open>\<^verbatim>\<open>.replace(/\s+/g, " ")\<close>: every maximal run of white space becomes one space.\<close>

function collapse_spaces :: "jstring \<Rightarrow> jstring" where
  "collapse_spaces [] = []"
| "collapse_spaces (x # xs) =
     (if is_space x then 0x20 # collapse_spaces (dropWhile is_space xs)
      else x # collapse_spaces xs)"
  by pat_completeness auto
termination
  by (relation "measure length") (auto simp: less_Suc_eq_le length_dropWhile_le)

text \<open>\<^verbatim>\<open>.trim()\<close>: the white space at the end goes, then the white space at the start.\<close>

definition trim_end :: "jstring \<Rightarrow> jstring" where
  "trim_end s = rev (dropWhile is_space (rev s))"

definition trim :: "jstring \<Rightarrow> jstring" where
  "trim s = dropWhile is_space (trim_end s)"

definition normalize_question :: "runtime \<Rightarrow> jstring \<Rightarrow> jstring" where
  "normalize_question rt msg = trim (collapse_spaces (replace_punct (toLowerCase rt msg)))"



text \<open>A word: a string that is not empty and has no white space or punctuation in it.\<close>

definition word_like :: "jstring \<Rightarrow> bool" where
  "word_like w = (w \<noteq> [] \<and> list_all (\<lambda>u. \<not> is_space u \<and> \<not> is_punct u) w)"


section \<open>The intent classifier of \<^verbatim>\<open>getLocalFallback\<close>\<close>

datatype intent =
  Price | Sell | Msp | Storage | Weather | Profit | Disease | Fertilizer | Water | Loan
  | Export | Sowing | Harvest | Variety | Transport | General

text \<open>
  \<^verbatim>\<open>const has = (...terms) => terms.reduce((score, t) => score + (q.includes(t) ? 1 : 0), 0)\<close>
\<close>

definition has :: "jstring \<Rightarrow> jstring list \<Rightarrow> nat" where
  "has q terms = foldl (\<lambda>score t. score + (if str_includes q t then 1 else 0)) 0 terms"

text \<open>
  The object literal \<^verbatim>\<open>scores\<close> (lines 179 to 209) calls \<^verbatim>\<open>has\<close> once per
  intent. \<open>score_table\<close> lists the fifteen keys in their order of declaration, each
  with the arguments of its call; \<open>scores\<close> is \<^verbatim>\<open>Object.entries(scores)\<close>, which
  enumerates string keys in insertion order.
\<close>

definition score_table :: "(intent \<times> jstring list) list" where
  "score_table =
    [(Price,
       [asc ''price'', asc ''rate'', asc ''bhav'', asc ''daam'', asc ''aaj'',
        asc ''today'', asc ''current'', asc ''kitna'', asc ''how much'', asc ''mandi'',
        asc ''market'', asc ''bhaav'', asc ''today price'', asc ''rate kya'',
        asc ''kya bhav'', asc ''what is price'', [0x926, 0x93E, 0x92E],
        [0x92D, 0x93E, 0x935], [0x906, 0x91C], [0x915, 0x93F, 0x924, 0x928, 0x93E],
        [0x915, 0x94D, 0x92F, 0x93E] @ asc '' '' @ [0x92D, 0x93E, 0x935],
        [0x92E, 0x902, 0x921, 0x940]]),
     (Sell,
       [asc ''sell'', asc ''selling'', asc ''bechna'', asc ''kab beche'',
        asc ''when sell'', asc ''best time'', asc ''kab'', asc ''timing'', asc ''hold'',
        asc ''store or sell'', asc ''should i sell'', asc ''kb bechu'',
        [0x915, 0x92C] @ asc '' '' @ [0x92C, 0x947, 0x91A, 0x942, 0x902],
        [0x92C, 0x947, 0x91A, 0x928, 0x93E], [0x915, 0x92C]]),
     (Msp,
       [asc ''msp'', asc ''minimum support'', asc ''government price'', asc ''sarkar'',
        asc ''scheme'', asc ''support price'', asc ''sarkari'', asc ''pm kisan'',
        asc ''pmkisan'', asc ''subsidy'', asc ''compensation'',
        [0x938, 0x930, 0x915, 0x93E, 0x930], [0x90F, 0x92E, 0x90F, 0x938, 0x92A, 0x940],
        [0x938, 0x92E, 0x930, 0x94D, 0x925, 0x928] @ asc '' '' @ [0x92E, 0x942, 0x932, 0x94D, 0x92F],
        [0x938, 0x930, 0x915, 0x93E, 0x930, 0x940]]),
     (Storage,
       [asc ''storage'', asc ''store'', asc ''cold storage'', asc ''godown'',
        asc ''rakhna'', asc ''warehouse'', asc ''bhndaran'', asc ''kitne din'',
        asc ''how long'', asc ''preserve'', [0x930, 0x916, 0x928, 0x93E],
        [0x92D, 0x902, 0x921, 0x93E, 0x930, 0x923], [0x917, 0x94B, 0x926, 0x93E, 0x92E],
        [0x920, 0x902, 0x921, 0x93E]]),
     (Weather,
       [asc ''weather'', asc ''rain'', asc ''monsoon'', asc ''mausam'', asc ''barish'',
        asc ''drought'', asc ''flood'', asc ''climate'', asc ''temperature'',
        asc ''baarish'', asc ''season'', asc ''kharif'', asc ''rabi'',
        [0x92E, 0x94C, 0x938, 0x92E], [0x92C, 0x93E, 0x930, 0x93F, 0x936],
        [0x938, 0x942, 0x916, 0x93E], [0x92C, 0x93E, 0x922, 0x93C]]),
     (Profit,
       [asc ''profit'', asc ''income'', asc ''earning'', asc ''kamai'', asc ''fayda'',
        asc ''labh'', asc ''margin'', asc ''roi'', asc ''return'', asc ''kitna milega'',
        asc ''how much earn'', asc ''benefit'', [0x915, 0x92E, 0x93E, 0x908],
        [0x92B, 0x93E, 0x92F, 0x926, 0x93E], [0x932, 0x93E, 0x92D],
        [0x92E, 0x941, 0x928, 0x93E, 0x92B, 0x93E]]),
     (Disease,
       [asc ''disease'', asc ''pest'', asc ''insect'', asc ''fungus'', asc ''virus'',
        asc ''spray'', asc ''medicine'', asc ''dawai'', asc ''kit'', asc ''rog'',
        asc ''keeda'', asc ''blight'', asc ''wilt'', asc ''rot'', asc ''yellow'',
        asc ''leaf'', [0x915, 0x940, 0x91F], [0x930, 0x94B, 0x917],
        [0x926, 0x935, 0x93E, 0x908], [0x915, 0x940, 0x921, 0x93C, 0x93E]]),
     (Fertilizer,
       [asc ''fertilizer'', asc ''khad'', asc ''urea'', asc ''dap'', asc ''npk'',
        asc ''manure'', asc ''compost'', asc ''potash'', asc ''zinc'', asc ''nutrient'',
        [0x916, 0x93E, 0x926], [0x92F, 0x942, 0x930, 0x93F, 0x92F, 0x93E],
        [0x921, 0x940, 0x90F, 0x92A, 0x940]]),
     (Water,
       [asc ''water'', asc ''irrigation'', asc ''drip'', asc ''paani'', asc ''sinchai'',
        asc ''pump'', asc ''borewell'', asc ''canal'', [0x92A, 0x93E, 0x928, 0x940],
        [0x938, 0x93F, 0x902, 0x91A, 0x93E, 0x908], [0x928, 0x939, 0x930]]),
     (Loan,
       [asc ''loan'', asc ''credit'', asc ''bank'', asc ''kcc'', asc ''kisan card'',
        asc ''finance'', asc ''interest'', asc ''byaj'', asc ''nabard'', asc ''insurance'',
        asc ''pmfby'', [0x92C, 0x940, 0x92E, 0x93E], [0x90B, 0x923], [0x932, 0x94B, 0x928],
        [0x92C, 0x94D, 0x92F, 0x93E, 0x91C],
        [0x915, 0x93F, 0x938, 0x93E, 0x928] @ asc '' '' @ [0x915, 0x93E, 0x930, 0x94D, 0x921]]),
     (Export,
       [asc ''export'', asc ''foreign'', asc ''international'', asc ''demand'',
        asc ''global'', asc ''abroad'', [0x935, 0x93F, 0x926, 0x947, 0x936],
        [0x928, 0x93F, 0x930, 0x94D, 0x92F, 0x93E, 0x924]]),
     (Sowing,
       [asc ''sow'', asc ''sowing'', asc ''plant'', asc ''seed'', asc ''baai'',
        asc ''ugana'', asc ''nursery'', asc ''transplant'',
        [0x92C, 0x941, 0x935, 0x93E, 0x908], [0x92C, 0x940, 0x91C],
        [0x909, 0x917, 0x93E, 0x928, 0x93E], [0x928, 0x930, 0x94D, 0x938, 0x930, 0x940]]),
     (Harvest,
       [asc ''harvest'', asc ''cutting'', asc ''katai'', asc ''ready'', asc ''ripeness'',
        asc ''kab katna'', [0x915, 0x91F, 0x93E, 0x908],
        [0x924, 0x948, 0x92F, 0x93E, 0x930]]),
     (Variety,
       [asc ''variety'', asc ''type'', asc ''which type'', asc ''konsa'', asc ''breed'',
        asc ''hybrid'', asc ''variety konsi'', [0x915, 0x93F, 0x938, 0x94D, 0x92E],
        [0x915, 0x94C, 0x928] @ asc '' '' @ [0x938, 0x940],
        [0x939, 0x93E, 0x907, 0x92C, 0x94D, 0x930, 0x93F, 0x921]]),
     (Transport,
       [asc ''transport'', asc ''truck'', asc ''vehicle'', asc ''freight'',
        asc ''delivery'', asc ''gaadi'', [0x922, 0x941, 0x932, 0x93E, 0x908],
        [0x917, 0x93E, 0x921, 0x93C, 0x940]])]"

definition scores :: "jstring \<Rightarrow> (intent \<times> nat) list" where
  "scores q = map (\<lambda>(name, terms). (name, has q terms)) score_table"

text \<open>
  \<^verbatim>\<open>Object.entries(scores).sort((a,b) => b[1]-a[1])\<close>. \<^verbatim>\<open>Array.prototype.sort\<close>
  is stable: of two entries the one with the larger score comes first, and entries of
  equal score keep their order. \<open>insert_desc\<close> puts an entry in front of a list that
  is already sorted, before the first entry whose score is not larger.
\<close>

fun insert_desc :: "(intent \<times> nat) \<Rightarrow> (intent \<times> nat) list \<Rightarrow> (intent \<times> nat) list" where
  "insert_desc a [] = [a]"
| "insert_desc a (b # bs) = (if snd b \<le> snd a then a # b # bs else b # insert_desc a bs)"

definition sort_desc :: "(intent \<times> nat) list \<Rightarrow> (intent \<times> nat) list" where
  "sort_desc es = foldr insert_desc es []"

text \<open>
  \<^verbatim>\<open>const topIntent = Object.entries(scores).sort(...)[0];\<close>
  \<^verbatim>\<open>const intent = topIntent[1] > 0 ? topIntent[0] : "general";\<close>
  The sorted list has fifteen entries (lemma \<open>sort_desc_scores_not_Nil\<close>), so its
  element 0 exists.
\<close>

definition topIntent :: "jstring \<Rightarrow> intent \<times> nat" where
  "topIntent q = hd (sort_desc (scores q))"

definition classify :: "jstring \<Rightarrow> intent" where
  "classify q = (if 0 < snd (topIntent q) then fst (topIntent q) else General)"

section \<open>Crop tables\<close>

text \<open>
  The records of \<^verbatim>\<open>CROP_META\<close>. The fallback record of \<^verbatim>\<open>getLocalFallback\<close>
  has no \<^verbatim>\<open>icon\<close>, so that field is optional. \<^verbatim>\<open>vol\<close> is the decimal fraction
  the source writes; nothing in the fallback path computes with it.
\<close>

record crop_meta =
  icon :: "jstring option"
  season :: jstring
  harvest :: jstring
  base :: nat
  vol :: rat

definition CROPS :: "jstring list" where
  "CROPS =
    [asc ''Wheat'', asc ''Rice'', asc ''Maize'', asc ''Tomato'', asc ''Onion'',
     asc ''Potato'', asc ''Soybean'', asc ''Cotton'', asc ''Sugarcane'', asc ''Chilli'']"

definition CROP_META :: "(jstring \<times> crop_meta) list" where
  "CROP_META =
    [(asc ''Wheat'',
       \<lparr>icon = Some [0xD83C, 0xDF3E], season = asc ''Rabi'', harvest = asc ''Mar-Apr'',
        base = 2200, vol = 6 / 100\<rparr>),
     (asc ''Rice'',
       \<lparr>icon = Some [0xD83C, 0xDF5A], season = asc ''Kharif'', harvest = asc ''Oct-Nov'',
        base = 3100, vol = 5 / 100\<rparr>),
     (asc ''Maize'',
       \<lparr>icon = Some [0xD83C, 0xDF3D], season = asc ''Kharif'', harvest = asc ''Sep-Oct'',
        base = 1800, vol = 8 / 100\<rparr>),
     (asc ''Tomato'',
       \<lparr>icon = Some [0xD83C, 0xDF45], season = asc ''Year-round'', harvest = asc ''Oct & Mar'',
        base = 1500, vol = 35 / 100\<rparr>),
     (asc ''Onion'',
       \<lparr>icon = Some [0xD83E, 0xDDC5], season = asc ''Rabi/Kharif'', harvest = asc ''Nov & Mar'',
        base = 1200, vol = 40 / 100\<rparr>),
     (asc ''Potato'',
       \<lparr>icon = Some [0xD83E, 0xDD54], season = asc ''Rabi'', harvest = asc ''Jan-Feb'',
        base = 900, vol = 25 / 100\<rparr>),
     (asc ''Soybean'',
       \<lparr>icon = Some [0xD83E, 0xDED8], season = asc ''Kharif'', harvest = asc ''Oct-Nov'',
        base = 4500, vol = 10 / 100\<rparr>),
     (asc ''Cotton'',
       \<lparr>icon = Some [0x2601, 0xFE0F], season = asc ''Kharif'', harvest = asc ''Nov-Jan'',
        base = 6200, vol = 7 / 100\<rparr>),
     (asc ''Sugarcane'',
       \<lparr>icon = Some [0xD83C, 0xDF8B], season = asc ''Year-round'', harvest = asc ''Oct-Mar'',
        base = 380, vol = 3 / 100\<rparr>),
     (asc ''Chilli'',
       \<lparr>icon = Some [0xD83C, 0xDF36, 0xFE0F], season = asc ''Rabi'', harvest = asc ''Feb-Mar'',
        base = 8500, vol = 30 / 100\<rparr>)]"

definition CROP_TIPS :: "(jstring \<times> jstring) list" where
  "CROP_TIPS =
    [(asc ''Wheat'',
       asc ''Prices typically rise post-harvest export season (Apr'' @ [0x2013] @
       asc ''Jun). Best to store until May.''),
     (asc ''Rice'',
       asc ''Sell 30'' @ [0x2013] @ asc ''40% immediately post-harvest, store rest for Jan'' @
       [0x2013] @ asc ''Feb when prices rise 15'' @ [0x2013] @ asc ''20%.''),
     (asc ''Tomato'',
       asc ''High volatility crop. Monitor daily prices. Consider contract farming '' @
       asc ''for stability.''),
     (asc ''Onion'',
       asc ''Cold storage can yield 25'' @ [0x2013] @ asc ''35% premium. April'' @ [0x2013] @
       asc ''July is the best selling window.''),
     (asc ''Potato'',
       asc ''Store in cold storage. Market opens up in summer (May'' @ [0x2013] @
       asc ''Jul) with 20% higher prices.''),
     (asc ''Maize'',
       asc ''Poultry feed demand drives prices. Nov'' @ [0x2013] @
       asc ''Jan tends to be the best selling period.''),
     (asc ''Soybean'',
       asc ''Global soy prices heavily influence. Watch CBOT futures for export '' @
       asc ''demand signals.''),
     (asc ''Cotton'',
       asc ''Textile industry demand peaks in Feb'' @ [0x2013] @
       asc ''Mar. Hold for quality premium pricing.''),
     (asc ''Sugarcane'',
       asc ''Regulated FRP prices ensure minimum income. Sell early to avoid payment '' @
       asc ''delays.''),
     (asc ''Chilli'',
       asc ''Export demand from Sri Lanka & Bangladesh boosts prices in May'' @ [0x2013] @
       asc ''Jun. Dry for better margins.'')]"

text \<open>\<^verbatim>\<open>{ base: 2000, harvest: "varies", season: "varies", vol: 0.1 }\<close>\<close>

definition default_meta :: crop_meta where
  "default_meta =
    \<lparr>icon = None, season = asc ''varies'', harvest = asc ''varies'', base = 2000, vol = 1 / 10\<rparr>"

text \<open>
  \<^verbatim>\<open>CROP_META[crop]\<close> and \<^verbatim>\<open>CROP_TIPS[crop]\<close> read a property of an object
  literal. A name the literal does not define is looked up in \<^verbatim>\<open>Object.prototype\<close>,
  whose properties are all truthy: eleven built-in functions and the accessor
  \<^verbatim>\<open>__proto__\<close>, which yields \<^verbatim>\<open>Object.prototype\<close> itself. Only a name found in
  neither place reads as \<^verbatim>\<open>undefined\<close>, here \<open>None\<close>.
\<close>

definition object_prototype_names :: "jstring list" where
  "object_prototype_names =
    [asc ''constructor'', asc ''__defineGetter__'', asc ''__defineSetter__'',
     asc ''hasOwnProperty'', asc ''__lookupGetter__'', asc ''__lookupSetter__'',
     asc ''isPrototypeOf'', asc ''propertyIsEnumerable'', asc ''toString'', asc ''valueOf'',
     asc ''__proto__'', asc ''toLocaleString'']"

datatype 'a slot = Own 'a | Inherited jstring

definition get_slot :: "(jstring \<times> 'a) list \<Rightarrow> jstring \<Rightarrow> 'a slot option" where
  "get_slot obj k =
    (case map_of obj k of
       Some v \<Rightarrow> Some (Own v)
     | None \<Rightarrow> if k \<in> set object_prototype_names then Some (Inherited k) else None)"

text \<open>
  \<^verbatim>\<open>CROP_META[crop] || m\<close>: a record and an inherited value are both truthy.
  \<^verbatim>\<open>CROP_TIPS[crop] || tip\<close>: a string is truthy unless it is empty.
\<close>

definition meta_or :: "crop_meta slot option \<Rightarrow> crop_meta slot \<Rightarrow> crop_meta slot" where
  "meta_or v d = (case v of Some x \<Rightarrow> x | None \<Rightarrow> d)"

definition tip_or :: "jstring slot option \<Rightarrow> jstring slot \<Rightarrow> jstring slot" where
  "tip_or v d =
    (case v of
       Some (Own s) \<Rightarrow> if s = [] then d else Own s
     | Some (Inherited n) \<Rightarrow> Inherited n
     | None \<Rightarrow> d)"

text \<open>
  \<^verbatim>\<open>cm.base\<close>, \<^verbatim>\<open>cm.harvest\<close>, \<^verbatim>\<open>cm.season\<close>: a field of a record, and
  \<^verbatim>\<open>undefined\<close> (\<open>None\<close>) when \<^verbatim>\<open>cm\<close> is an inherited value, which has no such
  property.
\<close>

definition base_of :: "crop_meta slot \<Rightarrow> nat option" where
  "base_of cm = (case cm of Own r \<Rightarrow> Some (base r) | Inherited n \<Rightarrow> None)"

definition harvest_of :: "crop_meta slot \<Rightarrow> jstring option" where
  "harvest_of cm = (case cm of Own r \<Rightarrow> Some (harvest r) | Inherited n \<Rightarrow> None)"

definition season_of :: "crop_meta slot \<Rightarrow> jstring option" where
  "season_of cm = (case cm of Own r \<Rightarrow> Some (season r) | Inherited n \<Rightarrow> None)"

section \<open>Values inside a template literal\<close>

function decimal :: "nat \<Rightarrow> jstring" where
  "decimal n = (if n < 10 then [0x30 + n] else decimal (n div 10) @ [0x30 + n mod 10])"
  by pat_completeness auto
termination
  by (relation "measure id") auto

declare decimal.simps [simp del]

definition show_text :: "jstring option \<Rightarrow> jstring" where
  "show_text v = (case v of Some s \<Rightarrow> s | None \<Rightarrow> asc ''undefined'')"

definition show_number :: "nat option \<Rightarrow> jstring" where
  "show_number v = (case v of Some n \<Rightarrow> decimal n | None \<Rightarrow> asc ''undefined'')"

text \<open>
  \<^verbatim>\<open>Math.round(cm.base * 1.2)\<close>. Every base price of the tables is a multiple of 5,
  so the product is a whole number, the double product is within one unit in the last
  place of it, and \<^verbatim>\<open>Math.round\<close> returns it: rounding \<open>12 * base / 10\<close> half up
  gives the same number. \<^verbatim>\<open>undefined * 1.2\<close> is \<^verbatim>\<open>NaN\<close>.
\<close>

definition show_number_rounded :: "nat option \<Rightarrow> jstring" where
  "show_number_rounded v =
    (case v of Some n \<Rightarrow> decimal ((n * 12 + 5) div 10) | None \<Rightarrow> asc ''NaN'')"

definition show_tip :: "runtime \<Rightarrow> jstring slot \<Rightarrow> jstring" where
  "show_tip rt ct = (case ct of Own s \<Rightarrow> s | Inherited n \<Rightarrow> nativeText rt n)"

section \<open>The answer templates\<close>

text \<open>
  The conditional expressions that the templates of \<^verbatim>\<open>getLocalFallback\<close> embed
  (lines 231, 234, 247 to 251, 257 to 261, 267 to 271, 275 to 281 and 284), one
  definition each; \<^verbatim>\<open>===\<close> on two strings compares their code units.
\<close>

definition storage_premium :: "jstring \<Rightarrow> jstring" where
  "storage_premium mentionedCrop =
    (if mentionedCrop = asc ''Potato'' \<or> mentionedCrop = asc ''Onion''
     then asc ''25'' @ [0x2013] @ asc ''40% price premium''
     else asc ''short-term holding'')"

definition cold_wave_effect :: "jstring \<Rightarrow> jstring" where
  "cold_wave_effect mentionedCrop =
    (if mentionedCrop = asc ''Tomato'' \<or> mentionedCrop = asc ''Potato''
     then asc ''quality & supply significantly''
     else asc ''field operations'')"

definition water_requirement :: "jstring \<Rightarrow> jstring" where
  "water_requirement mentionedCrop =
    (if mentionedCrop = asc ''Rice''
     then asc ''High '' @ [0x2014] @ asc '' 1200'' @ [0x2013] @ asc ''2000 mm (flood or SRI method)''
     else if mentionedCrop = asc ''Sugarcane''
     then asc ''High '' @ [0x2014] @ asc '' irrigate every 10'' @ [0x2013] @
          asc ''15 days''
     else if mentionedCrop = asc ''Wheat''
     then asc ''Medium '' @ [0x2014] @ asc '' 4'' @ [0x2013] @
          asc ''6 irrigations (CRI, tillering, jointing, grain fill)''
     else if mentionedCrop = asc ''Tomato''
     then asc ''Frequent '' @ [0x2014] @ asc '' drip irrigation saves 40% water''
     else asc ''Moderate '' @ [0x2014] @ asc '' check soil moisture before irrigating'')"

definition export_markets :: "jstring \<Rightarrow> jstring" where
  "export_markets mentionedCrop =
    (if mentionedCrop = asc ''Chilli''
     then [0x2022] @ asc '' Sri Lanka, Bangladesh, UAE, Malaysia '' @ [0x2014] @ asc '' May'' @
          [0x2013] @ asc ''Jun is peak export season''
     else if mentionedCrop = asc ''Onion''
     then [0x2022] @ asc '' Malaysia, Sri Lanka, UAE '' @ [0x2014] @ asc '' Apr'' @ [0x2013] @
          asc ''Jul when domestic prices are high''
     else if mentionedCrop = asc ''Rice''
     then [0x2022] @ asc '' Middle East, Africa, SE Asia '' @ [0x2014] @
          asc '' India is world's largest rice exporter''
     else if mentionedCrop = asc ''Cotton''
     then [0x2022] @ asc '' Bangladesh, China for textile '' @ [0x2014] @
          asc '' premium for long staple quality''
     else [0x2022] @ asc '' Check APEDA portal (apeda.gov.in) for your crop's export potential'')"

definition maturity_signs :: "jstring \<Rightarrow> jstring" where
  "maturity_signs mentionedCrop =
    (if mentionedCrop = asc ''Wheat''
     then [0x2022] @ asc '' Golden yellow color, grains hard & dry, moisture 14'' @ [0x2013] @
          asc ''16%''
     else if mentionedCrop = asc ''Rice''
     then [0x2022] @ asc '' 80% grains golden yellow, moisture 20'' @ [0x2013] @
          asc ''25% at harvest''
     else if mentionedCrop = asc ''Tomato''
     then [0x2022] @ asc '' Red color, firm texture '' @ [0x2014] @ asc '' harvest every 3'' @
          [0x2013] @ asc ''4 days''
     else if mentionedCrop = asc ''Onion''
     then [0x2022] @ asc '' Neck fall (70% plants), tops dry and fall naturally''
     else [0x2022] @ asc '' Check crop-specific maturity indicators with your KVK'')"

definition recommended_varieties :: "jstring \<Rightarrow> jstring" where
  "recommended_varieties mentionedCrop =
    (if mentionedCrop = asc ''Wheat''
     then [0x2022] @ asc '' HD-2967, HD-3086, GW-322, DBW-187 (disease resistant)''
     else if mentionedCrop = asc ''Rice''
     then [0x2022] @ asc '' Swarna, MTU-1010, Pusa Basmati 1121, BPT-5204''
     else if mentionedCrop = asc ''Tomato''
     then [0x2022] @ asc '' Arka Vikas, Pusa Ruby, Solan Vajra, hybrid varieties''
     else if mentionedCrop = asc ''Onion''
     then [0x2022] @ asc '' Bhima Super, Agrifound Light Red, Phule Safed''
     else if mentionedCrop = asc ''Potato''
     then [0x2022] @ asc '' Kufri Jyoti, Kufri Pukhraj, Kufri Chipsona''
     else if mentionedCrop = asc ''Maize''
     then [0x2022] @ asc '' DHM-117, Vivek QPM-9, DKC-9144 (hybrid)''
     else [0x2022] @ asc '' Contact your state agriculture department or KVK for region-specific '' @
          asc ''variety recommendations'')"

definition perishable_name :: "jstring \<Rightarrow> jstring" where
  "perishable_name mentionedCrop =
    (if mentionedCrop = asc ''Tomato'' \<or> mentionedCrop = asc ''Onion''
     then asc ''Tomato/Onion''
     else asc ''this crop'')"

text \<open>
  The \<^verbatim>\<open>switch (intent)\<close> of \<^verbatim>\<open>getLocalFallback\<close> (lines 220 to 289), one equation
  for each \<^verbatim>\<open>case\<close> and the last for \<^verbatim>\<open>default\<close>. \<open>ct\<close> is the tip as the
  template prints it.
\<close>

fun renderFallback ::
  "intent \<Rightarrow> jstring \<Rightarrow> jstring \<Rightarrow> crop_meta slot \<Rightarrow> jstring \<Rightarrow> jstring" where
  "renderFallback Price msg mentionedCrop cm ct =
     [0xD83D, 0xDCCA] @ asc '' **'' @ mentionedCrop @
     asc '' Market Price**\<newline>\<newline>Current approximate price: '' @ [0x20B9] @
     show_number (base_of cm) @ [0x2013, 0x20B9] @ show_number_rounded (base_of cm) @
     asc ''/quintal\<newline>(Varies by quality, location & '' @
     asc ''season)\<newline>\<newline>Best harvest window: '' @ show_text (harvest_of cm) @
     asc '' | Season: '' @ show_text (season_of cm) @ asc ''\<newline>\<newline>'' @
     [0xD83D, 0xDD0D] @ asc '' Check live prices at:\<newline>'' @ [0x2022] @
     asc '' eNAM portal '' @ [0x2192] @ asc '' enam.gov.in\<newline>'' @ [0x2022] @
     asc '' AgMarkNet '' @ [0x2192] @ asc '' agmarknet.gov.in\<newline>'' @ [0x2022] @
     asc '' Your local APMC mandi board\<newline>\<newline>'' @ ct"
| "renderFallback Sell msg mentionedCrop cm ct =
     [0xD83D, 0xDCC5] @ asc '' **Best Time to Sell '' @ mentionedCrop @
     asc ''**\<newline>\<newline>'' @ ct @ asc ''\<newline>\<newline>Harvest window: '' @
     show_text (harvest_of cm) @ asc '' | Season: '' @ show_text (season_of cm) @
     asc ''\<newline>\<newline>'' @ [0xD83D, 0xDCA1] @
     asc '' Strategy: Avoid selling at peak harvest when supply floods the market. '' @
     asc ''Wait 4'' @ [0x2013] @ asc ''6 weeks after harvest '' @ [0x2014] @
     asc '' prices usually rise 10'' @ [0x2013] @
     asc ''20%.\<newline>\<newline>Check daily mandi rates on eNAM (enam.gov.in) '' @
     asc ''before deciding.''"
| "renderFallback Msp msg mentionedCrop cm ct =
     [0xD83C, 0xDFDB, 0xFE0F] @ asc '' **MSP for '' @ mentionedCrop @
     asc ''**\<newline>\<newline>The government sets MSP (Minimum Support Price) '' @
     asc ''each season to protect farmers. To claim MSP:\<newline>\<newline>1'' @
     [0xFE0F, 0x20E3] @ asc '' Register on PM-KISAN portal '' @ [0x2192] @
     asc '' pmkisan.gov.in\<newline>2'' @ [0xFE0F, 0x20E3] @
     asc '' Documents needed: Khatauni (land record), Aadhaar, Bank '' @
     asc ''passbook\<newline>3'' @ [0xFE0F, 0x20E3] @
     asc '' Sell through your local APMC mandi or registered procurement '' @
     asc ''center\<newline>\<newline>'' @ [0xD83D, 0xDCDE] @
     asc '' Kisan Helpline: 1800-180-1551 (Toll Free, 24x7)\<newline>'' @ [0xD83C, 0xDF10] @
     asc '' agri.gov.in for current MSP notifications''"
| "renderFallback Storage msg mentionedCrop cm ct =
     [0x2744, 0xFE0F] @ asc '' **Storage Tips for '' @ mentionedCrop @
     asc ''**\<newline>\<newline>'' @ ct @
     asc ''\<newline>\<newline>Storage options:\<newline>'' @ [0x2022] @
     asc '' Cold storage: Best for '' @ storage_premium mentionedCrop @ asc ''\<newline>'' @
     [0x2022] @ asc '' Join a local FPO for shared cold storage at lower '' @
     asc ''cost/quintal\<newline>'' @ [0x2022] @
     asc '' Proper drying & grading before storage reduces losses by 15'' @ [0x2013] @
     asc ''20%\<newline>\<newline>Ask your district agriculture officer for '' @
     asc ''nearest government cold storage facility.''"
| "renderFallback Weather msg mentionedCrop cm ct =
     [0xD83C, 0xDF26, 0xFE0F] @ asc '' **Weather Impact on '' @ mentionedCrop @
     asc ''**\<newline>\<newline>Monsoon effect: Deficit rainfall '' @ [0x2192] @
     asc '' supply shortage '' @ [0x2192] @ asc '' price rise 15'' @ [0x2013] @
     asc ''25%\<newline>Excess rain '' @ [0x2192] @ asc '' crop damage '' @ [0x2192] @
     asc '' short spike then crash\<newline>Cold wave '' @ [0x2192] @ asc '' affects '' @
     cold_wave_effect mentionedCrop @ asc ''\<newline>\<newline>'' @ [0xD83D, 0xDEE1, 0xFE0F] @
     asc '' Protect your income:\<newline>'' @ [0x2022] @ asc '' PMFBY crop insurance '' @
     [0x2014] @ asc '' register before sowing season\<newline>'' @ [0x2022] @
     asc '' IMD weather forecast '' @ [0x2192] @ asc '' imd.gov.in for your district''"
| "renderFallback Profit msg mentionedCrop cm ct =
     [0xD83D, 0xDCB0] @ asc '' **Profit Maximization '' @ [0x2014] @ asc '' '' @ mentionedCrop @
     asc ''**\<newline>\<newline>'' @ ct @
     asc ''\<newline>\<newline>To increase your income from '' @ mentionedCrop @
     asc '':\<newline>'' @ [0x2022] @ asc '' Time your sale correctly ('' @
     show_text (harvest_of cm) @ asc '')\<newline>'' @ [0x2022] @
     asc '' Reduce post-harvest losses with proper storage & grading\<newline>'' @ [0x2022] @
     asc '' Sell directly to buyers via eNAM '' @ [0x2014] @ asc '' skip middlemen\<newline>'' @
     [0x2022] @ asc '' Explore value addition: processing, packaging, or contract '' @
     asc ''farming\<newline>'' @ [0x2022] @
     asc '' Join an FPO to negotiate better prices in bulk''"
| "renderFallback Disease msg mentionedCrop cm ct =
     [0xD83C, 0xDF3F] @ asc '' **Disease & Pest Management '' @ [0x2014] @ asc '' '' @
     mentionedCrop @ asc ''**\<newline>\<newline>Common issues in '' @ mentionedCrop @
     asc '': fungal blight, aphids, leaf curl, root rot (varies by '' @
     asc ''season).\<newline>\<newline>Immediate steps:\<newline>1. Identify the '' @
     asc ''pest/disease accurately before spraying\<newline>2. Contact your Krishi '' @
     asc ''Vigyan Kendra (KVK) '' @ [0x2014] @
     asc '' free expert advice\<newline>3. Use recommended pesticides at correct '' @
     asc ''dosage\<newline>\<newline>'' @ [0xD83D, 0xDCDE] @
     asc '' Kisan Call Centre: 1800-180-1551\<newline>'' @ [0xD83C, 0xDF10] @
     asc '' State agriculture department app for photo-based '' @
     asc ''diagnosis\<newline>\<newline>'' @ [0x26A0, 0xFE0F] @
     asc '' Early treatment prevents 20'' @ [0x2013] @ asc ''30% yield loss.''"
| "renderFallback Fertilizer msg mentionedCrop cm ct =
     [0xD83C, 0xDF31] @ asc '' **Fertilizer Guide '' @ [0x2014] @ asc '' '' @ mentionedCrop @
     asc ''**\<newline>\<newline>General recommendation for '' @ mentionedCrop @
     asc '' (per acre):\<newline>'' @ [0x2022] @
     asc '' Basal dose: DAP 50 kg + MOP 25 kg at sowing\<newline>'' @ [0x2022] @
     asc '' Top dressing: Urea 25'' @ [0x2013] @
     asc ''30 kg at 30 days after planting\<newline>'' @ [0x2022] @
     asc '' Micronutrients: Zinc sulphate if soil is '' @
     asc ''deficient\<newline>\<newline>Always get a **soil test done** (free at '' @
     asc ''KVK or for '' @ [0x20B9] @ asc ''50 at district lab) before applying fertilizers '' @
     [0x2014] @ asc '' saves 20'' @ [0x2013] @
     asc ''30% fertilizer cost.\<newline>\<newline>'' @ [0xD83D, 0xDCDE] @
     asc '' Contact your local agriculture extension officer for crop-specific '' @
     asc ''doses.''"
| "renderFallback Water msg mentionedCrop cm ct =
     [0xD83D, 0xDCA7] @ asc '' **Irrigation for '' @ mentionedCrop @
     asc ''**\<newline>\<newline>'' @ mentionedCrop @ asc '' water requirement: '' @
     water_requirement mentionedCrop @ asc ''\<newline>\<newline>'' @ [0xD83D, 0xDCA1] @
     asc '' Drip/sprinkler irrigation saves 30'' @ [0x2013] @
     asc ''50% water vs flood irrigation.\<newline>Apply for Pradhan Mantri Krishi '' @
     asc ''Sinchai Yojana (PMKSY) subsidy on drip systems.''"
| "renderFallback Loan msg mentionedCrop cm ct =
     [0xD83C, 0xDFE6] @ asc '' **Farm Finance & Insurance**\<newline>\<newline>'' @ [0x2022] @
     asc '' **Kisan Credit Card (KCC):** Up to '' @ [0x20B9] @
     asc ''3 lakh at 4% effective interest (7% minus 3% subvention) '' @ [0x2014] @
     asc '' apply at any bank\<newline>'' @ [0x2022] @ asc '' **PM-KISAN:** '' @ [0x20B9] @
     asc ''6,000/year direct to your bank '' @ [0x2192] @ asc '' pmkisan.gov.in\<newline>'' @
     [0x2022] @ asc '' **PMFBY Crop Insurance:** Covers crop loss from drought, flood, pest '' @
     [0x2014] @ asc '' enroll before sowing\<newline>'' @ [0x2022] @
     asc '' **NABARD loans** via cooperative banks for farm '' @
     asc ''infrastructure\<newline>\<newline>'' @ [0xD83D, 0xDCDE] @
     asc '' Bank helpline or nearest PACS for KCC application\<newline>'' @ [0xD83D, 0xDCDE] @
     asc '' Kisan Helpline: 1800-180-1551''"
| "renderFallback Export msg mentionedCrop cm ct =
     [0xD83C, 0xDF0D] @ asc '' **Export Opportunities for '' @ mentionedCrop @
     asc ''**\<newline>\<newline>'' @ ct @
     asc ''\<newline>\<newline>Key export markets for Indian '' @ mentionedCrop @
     asc '':\<newline>'' @ export_markets mentionedCrop @
     asc ''\<newline>\<newline>Register on APEDA (Agricultural and Processed Food '' @
     asc ''Products Export Authority) at apeda.gov.in to connect with exporters.''"
| "renderFallback Sowing msg mentionedCrop cm ct =
     [0xD83C, 0xDF31] @ asc '' **Sowing Guide '' @ [0x2014] @ asc '' '' @ mentionedCrop @
     asc ''**\<newline>\<newline>Season: '' @ show_text (season_of cm) @
     asc '' | Best sowing time varies by region.\<newline>\<newline>General '' @
     asc ''steps:\<newline>1. Soil preparation: Deep plowing + 2'' @ [0x2013] @
     asc ''3 harrowings\<newline>2. Seed treatment: Use certified seeds, treat '' @
     asc ''with fungicide\<newline>3. Spacing & depth: As per variety '' @
     asc ''recommendation\<newline>4. Basal fertilizer: Apply DAP at '' @
     asc ''sowing\<newline>\<newline>'' @ [0xD83D, 0xDCDE] @
     asc '' Contact your Krishi Vigyan Kendra (KVK) for region-specific sowing '' @
     asc ''schedule and variety recommendations for '' @ mentionedCrop @ asc ''.''"
| "renderFallback Harvest msg mentionedCrop cm ct =
     [0xD83C, 0xDF3E] @ asc '' **Harvest Time '' @ [0x2014] @ asc '' '' @ mentionedCrop @
     asc ''**\<newline>\<newline>Typical harvest window: **'' @ show_text (harvest_of cm) @
     asc ''**\<newline>Season: '' @ show_text (season_of cm) @
     asc ''\<newline>\<newline>Signs of maturity for '' @ mentionedCrop @ asc '':\<newline>'' @
     maturity_signs mentionedCrop @ asc ''\<newline>\<newline>'' @ [0x23F0] @
     asc '' Harvest at the right time to avoid quality loss and price drop.''"
| "renderFallback Variety msg mentionedCrop cm ct =
     [0xD83C, 0xDF31] @ asc '' **Best Varieties '' @ [0x2014] @ asc '' '' @ mentionedCrop @
     asc ''**\<newline>\<newline>Top recommended varieties for '' @ mentionedCrop @
     asc '':\<newline>'' @ recommended_varieties mentionedCrop @
     asc ''\<newline>\<newline>Always buy **certified seeds** from '' @
     asc ''government-registered dealers.''"
| "renderFallback Transport msg mentionedCrop cm ct =
     [0xD83D, 0xDE9B] @ asc '' **Transport & Logistics for '' @ mentionedCrop @
     asc ''**\<newline>\<newline>Tips to reduce transport costs:\<newline>'' @ [0x2022] @
     asc '' Join or form an FPO to aggregate produce and share '' @
     asc ''transport\<newline>'' @
     [0x2022] @ asc '' Sell on eNAM (enam.gov.in) '' @ [0x2014] @
     asc '' buyers can bid from anywhere, reducing your need to travel\<newline>'' @ [0x2022] @
     asc '' Harvest at the right time to avoid emergency transport\<newline>'' @ [0x2022] @
     asc '' Use government-subsidized transport schemes in your '' @
     asc ''state\<newline>\<newline>For perishables like '' @ perishable_name mentionedCrop @
     asc '', pre-cool before transport to reduce losses.''"
| "renderFallback General msg mentionedCrop cm ct =
     [0xD83C, 0xDF3E] @ asc '' **AgroVueAI '' @ [0x2014] @ asc '' '' @ mentionedCrop @
     asc '' Answer**\<newline>\<newline>Your question: '' @ [0x22] @ msg @ [0x22] @
     asc ''\<newline>\<newline>'' @ ct @ asc ''\<newline>\<newline>Relevant info for '' @
     mentionedCrop @ asc '':\<newline>'' @ [0x2022] @ asc '' Season: '' @
     show_text (season_of cm) @ asc '' | Harvest: '' @ show_text (harvest_of cm) @
     asc ''\<newline>'' @ [0x2022] @ asc '' Approx price: '' @ [0x20B9] @
     show_number (base_of cm) @ asc ''/qtl\<newline>\<newline>'' @ [0xD83D, 0xDCDE] @
     asc '' For expert advice specific to your question:\<newline>'' @ [0x2022] @
     asc '' Kisan Call Centre: 1800-180-1551 (Toll Free, 24x7)\<newline>'' @ [0x2022] @
     asc '' eNAM portal: enam.gov.in\<newline>'' @ [0x2022] @
     asc '' Nearest Krishi Vigyan Kendra (KVK)''"

section \<open>\<^verbatim>\<open>getLocalFallback\<close>\<close>

text \<open>
  \<^verbatim>\<open>const mentionedCrop = CROPS.find(c => q.includes(c.toLowerCase())) || crop;\<close>
  A name that \<^verbatim>\<open>find\<close> returns is one of the ten, none of them empty, so it is truthy.
\<close>

definition mentionedCrop :: "runtime \<Rightarrow> jstring \<Rightarrow> jstring \<Rightarrow> jstring" where
  "mentionedCrop rt q crop =
    (case find (\<lambda>c. str_includes q (toLowerCase rt c)) CROPS of
       Some c \<Rightarrow> c
     | None \<Rightarrow> crop)"

text \<open>
  The body of \<^verbatim>\<open>getLocalFallback\<close> (lines 168 to 290), with \<open>mc\<close> for its constant
  \<^verbatim>\<open>mentionedCrop\<close>. The constant \<^verbatim>\<open>words\<close> of line 175 is never read.
\<close>

definition getLocalFallback :: "runtime \<Rightarrow> jstring \<Rightarrow> jstring \<Rightarrow> jstring" where
  "getLocalFallback rt msg crop =
    (let q = normalize_question rt msg;
         m = meta_or (get_slot CROP_META crop) (Own default_meta);
         tip = tip_or (get_slot CROP_TIPS crop) (Own []);
         intent = classify q;
         mc = mentionedCrop rt q crop;
         cm = meta_or (get_slot CROP_META mc) m;
         ct = tip_or (get_slot CROP_TIPS mc) tip
     in renderFallback intent msg mc cm (show_tip rt ct))"

section \<open>\<^verbatim>\<open>getAIReply\<close>\<close>

text \<open>
  What the request of \<^verbatim>\<open>getAIReply\<close> can come back with: \<^verbatim>\<open>fetch\<close> rejects, or
  it resolves to a response with a status and a body, which parses as JSON or does not.
\<close>

datatype json =
  JNull | JBool bool | JNumber bool jstring | JString jstring | JArray "json list"
  | JObject "(jstring \<times> json) list"

text \<open>
  \<open>JNumber nz t\<close> is a number with \<open>nz\<close> telling whether it is other than zero and
  \<open>t\<close> the text \<^verbatim>\<open>Number.prototype.toString\<close> gives it. \<open>JObject\<close> lists the own
  properties of a parsed object, the first binding of a key being its value.
\<close>

datatype fetch_outcome = NetworkFailure | Response nat "json option"

datatype js_error = NetworkError | ApiError nat | SyntaxError | TypeError

definition ok :: "nat \<Rightarrow> bool" where
  "ok status = (200 \<le> status \<and> status \<le> 299)"

fun collect :: "('e + 'a) list \<Rightarrow> 'e + 'a list" where
  "collect [] = Inr []"
| "collect (Inl e # rs) = Inl e"
| "collect (Inr x # rs) = (case collect rs of Inl e \<Rightarrow> Inl e | Inr xs \<Rightarrow> Inr (x # xs))"

fun join :: "jstring \<Rightarrow> jstring list \<Rightarrow> jstring" where
  "join sep [] = []"
| "join sep [s] = s"
| "join sep (s # t # ss) = s @ sep @ join sep (t # ss)"

text \<open>
  The string conversion that \<^verbatim>\<open>Array.prototype.join\<close> applies to an element. An
  array joins its own elements with a comma, \<^verbatim>\<open>null\<close> counting as empty; an object
  is \<^verbatim>\<open>[object Object]\<close> unless it has a property \<^verbatim>\<open>toString\<close> of its own, which
  parsed JSON cannot make callable, and then the conversion throws.
\<close>

fun ToString :: "json \<Rightarrow> js_error + jstring" where
  "ToString JNull = Inr (asc ''null'')"
| "ToString (JBool b) = Inr (if b then asc ''true'' else asc ''false'')"
| "ToString (JNumber nz t) = Inr t"
| "ToString (JString s) = Inr s"
| "ToString (JArray xs) =
     (case collect (map (\<lambda>x. if x = JNull then Inr [] else ToString x) xs) of
        Inl e \<Rightarrow> Inl e
      | Inr ss \<Rightarrow> Inr (join (asc '','') ss))"
| "ToString (JObject kvs) =
     (if map_of kvs (asc ''toString'') = None then Inr (asc ''[object Object]'')
      else Inl TypeError)"

fun truthy :: "json \<Rightarrow> bool" where
  "truthy JNull = False"
| "truthy (JBool b) = b"
| "truthy (JNumber nz t) = nz"
| "truthy (JString s) = (s \<noteq> [])"
| "truthy (JArray xs) = True"
| "truthy (JObject kvs) = True"

text \<open>\<^verbatim>\<open>b => b.text || ""\<close>\<close>

fun block_text :: "json \<Rightarrow> js_error + json" where
  "block_text JNull = Inl TypeError"
| "block_text (JObject kvs) =
     (case map_of kvs (asc ''text'') of
        Some v \<Rightarrow> Inr (if truthy v then v else JString [])
      | None \<Rightarrow> Inr (JString []))"
| "block_text b = Inr (JString [])"

text \<open>
  \<^verbatim>\<open>data.content?.map(b => b.text || "").join("") || ""\<close>. Reading a property of
  \<^verbatim>\<open>null\<close> throws; \<^verbatim>\<open>?.\<close> stops at \<^verbatim>\<open>null\<close> and \<^verbatim>\<open>undefined\<close> only; of the
  values JSON can hold only an array has a callable \<^verbatim>\<open>map\<close>.
\<close>

definition content_text :: "json option \<Rightarrow> js_error + jstring" where
  "content_text content =
    (case content of
       None \<Rightarrow> Inr []
     | Some JNull \<Rightarrow> Inr []
     | Some (JArray bs) \<Rightarrow>
         (case collect (map block_text bs) of
            Inl e \<Rightarrow> Inl e
          | Inr vs \<Rightarrow>
              (case collect (map ToString vs) of
                 Inl e \<Rightarrow> Inl e
               | Inr ss \<Rightarrow> Inr (join [] ss)))
     | Some other \<Rightarrow> Inl TypeError)"

fun reply_text :: "json \<Rightarrow> js_error + jstring" where
  "reply_text JNull = Inl TypeError"
| "reply_text (JObject kvs) = content_text (map_of kvs (asc ''content''))"
| "reply_text data = Inr []"

definition no_response :: jstring where
  "no_response = asc ''Sorry, I could not get a response. Please try again.''"

text \<open>
  The body of the \<^verbatim>\<open>try\<close> block (lines 138 to 157): \<open>Inl\<close> is an exception thrown
  inside it, \<open>Inr\<close> the value it returns.
\<close>

definition try_remote :: "fetch_outcome \<Rightarrow> js_error + jstring" where
  "try_remote outcome =
    (case outcome of
       NetworkFailure \<Rightarrow> Inl NetworkError
     | Response status body \<Rightarrow>
         if \<not> ok status then Inl (ApiError status)
         else (case body of
                 None \<Rightarrow> Inl SyntaxError
               | Some data \<Rightarrow>
                   (case reply_text data of
                      Inl e \<Rightarrow> Inl e
                    | Inr text \<Rightarrow> Inr (if trim text = [] then no_response else trim text))))"

text \<open>
  \<^verbatim>\<open>getAIReply\<close> with the outcome of its request as an argument. The conversation
  history, an array of message objects, goes into the request only, and the statements
  before the \<^verbatim>\<open>try\<close> block do not throw. \<open>Inl\<close> would be a rejected promise; the
  \<^verbatim>\<open>catch\<close> clause (lines 158 to 162) answers every exception of the \<^verbatim>\<open>try\<close> block
  with \<^verbatim>\<open>getLocalFallback(userMessage, crop)\<close>.
\<close>

definition getAIReply ::
  "runtime \<Rightarrow> fetch_outcome \<Rightarrow> jstring \<Rightarrow> jstring \<Rightarrow> js_error + jstring" where
  "getAIReply rt outcome userMessage crop =
    (case try_remote outcome of
       Inr reply \<Rightarrow> Inr reply
     | Inl err \<Rightarrow> Inr (getLocalFallback rt userMessage crop))"

section \<open>Facts about the classifier\<close>

lemma str_includes_sublist: "str_includes q t = sublist t q"
  by (induction q) (auto simp: sublist_Cons_right)

lemma foldl_has: 
  "foldl (\<lambda>score t. score + (if str_includes q t then 1 else 0)) n ts
     = n + length (filter (str_includes q) ts)"
  by (induction ts arbitrary: n) auto

lemma has_count: "has q ts = length (filter (\<lambda>t. sublist t q) ts)"
proof -
  have "str_includes q = (\<lambda>t. sublist t q)" by (rule ext) (rule str_includes_sublist)
  then show ?thesis unfolding has_def foldl_has by simp
qed

lemma has_Cons: "has q (t # ts) = (if sublist t q then 1 else 0) + has q ts"
  by (simp add: has_count)

lemma has_le: "has q ts \<le> length ts"
  by (simp add: has_count)

lemma has_zero_iff: "has q ts = 0 \<longleftrightarrow> (\<forall>t\<in>set ts. \<not> sublist t q)"
  by (simp add: has_count filter_empty_conv)

lemma map_fst_scores: "map fst (scores q) = map fst score_table"
  by (simp add: scores_def case_prod_unfold comp_def)

lemma map_fst_score_table:
  "map fst score_table = [Price, Sell, Msp, Storage, Weather, Profit, Disease, Fertilizer, Water, Loan,
     Export, Sowing, Harvest, Variety, Transport]"
  by (simp add: score_table_def)

lemma length_scores: "length (scores q) = 15"
  using arg_cong [OF map_fst_scores, of length q] by (simp add: map_fst_score_table)

lemma distinct_fst_scores: "distinct (map fst (scores q))"
  unfolding map_fst_scores map_fst_score_table by simp

lemma hd_insert_desc:
  "hd (insert_desc a bs) = (if bs = [] \<or> snd (hd bs) \<le> snd a then a else hd bs)"
  by (cases bs) auto

lemma insert_desc_not_Nil: "insert_desc a bs \<noteq> []"
  by (cases bs) auto

lemma sort_desc_Cons: "sort_desc (e # es) = insert_desc e (sort_desc es)"
  by (simp add: sort_desc_def)

lemma sort_desc_Nil_iff: "sort_desc es = [] \<longleftrightarrow> es = []"
  by (cases es) (simp_all add: sort_desc_def insert_desc_not_Nil)

lemma hd_sort_desc:
  "es \<noteq> [] \<Longrightarrow>
     \<exists>k<length es. hd (sort_desc es) = es ! k
        \<and> (\<forall>j<length es. snd (es ! j) \<le> snd (es ! k))
        \<and> (\<forall>j<k. snd (es ! j) < snd (es ! k))"
proof (induction es)
  case Nil
  then show ?case by simp
next
  case (Cons e es)
  show ?case
  proof (cases "es = []")
    case True
    then show ?thesis by (simp add: sort_desc_def)
  next
    case False
    from Cons.IH [OF False] obtain k where k: "k < length es"
      and hd: "hd (sort_desc es) = es ! k"
      and mx: "\<forall>j<length es. snd (es ! j) \<le> snd (es ! k)"
      and fst: "\<forall>j<k. snd (es ! j) < snd (es ! k)"
      by blast
    have ne: "sort_desc es \<noteq> []" using False by (simp add: sort_desc_Nil_iff)
    show ?thesis
    proof (cases "snd (es ! k) \<le> snd e")
      case True
      then have "hd (sort_desc (e # es)) = (e # es) ! 0"
        by (simp add: sort_desc_Cons hd_insert_desc hd)
      moreover have "\<forall>j<length (e # es). snd ((e # es) ! j) \<le> snd ((e # es) ! 0)"
        using mx True by (auto simp: nth_Cons split: nat.splits intro: order_trans)
      ultimately show ?thesis by (intro exI [of _ 0]) simp
    next
      case False
      then have "hd (sort_desc (e # es)) = (e # es) ! Suc k"
        by (simp add: sort_desc_Cons hd_insert_desc hd ne)
      moreover have "\<forall>j<length (e # es). snd ((e # es) ! j) \<le> snd ((e # es) ! Suc k)"
        using mx False by (auto simp: nth_Cons split: nat.splits)
      moreover have "\<forall>j<Suc k. snd ((e # es) ! j) < snd ((e # es) ! Suc k)"
        using fst False by (auto simp: nth_Cons split: nat.splits)
      ultimately show ?thesis using k by (intro exI [of _ "Suc k"]) simp
    qed
  qed
qed

lemma scores_not_Nil: "scores q \<noteq> []"
  using length_scores [of q] by auto

lemma sort_desc_scores_not_Nil: "sort_desc (scores q) \<noteq> []"
  by (simp add: sort_desc_Nil_iff scores_not_Nil)

lemma topIntent_first_maximum:
  "\<exists>k<length (scores q). topIntent q = scores q ! k
      \<and> (\<forall>j<length (scores q). snd (scores q ! j) \<le> snd (scores q ! k))
      \<and> (\<forall>j<k. snd (scores q ! j) < snd (scores q ! k))"
  unfolding topIntent_def by (rule hd_sort_desc [OF scores_not_Nil])

lemma fst_scores_not_General: "e \<in> set (scores q) \<Longrightarrow> fst e \<noteq> General"
proof -
  assume "e \<in> set (scores q)"
  then have "fst e \<in> set (map fst (scores q))" by force
  then show ?thesis unfolding map_fst_scores map_fst_score_table by auto
qed

lemma topIntent_in_scores: "topIntent q \<in> set (scores q)"
  using topIntent_first_maximum [of q] by auto

lemma topIntent_zero_iff: "snd (topIntent q) = 0 \<longleftrightarrow> (\<forall>e\<in>set (scores q). snd e = 0)"
proof -
  obtain k where k: "k < length (scores q)" and t: "topIntent q = scores q ! k"
    and mx: "\<forall>j<length (scores q). snd (scores q ! j) \<le> snd (scores q ! k)"
    using topIntent_first_maximum by blast
  show ?thesis
  proof
    assume "snd (topIntent q) = 0"
    with t mx have "\<forall>j<length (scores q). snd (scores q ! j) = 0" by simp
    then show "\<forall>e\<in>set (scores q). snd e = 0" by (metis in_set_conv_nth)
  next
    assume "\<forall>e\<in>set (scores q). snd e = 0"
    moreover have "topIntent q \<in> set (scores q)" using k t by simp
    ultimately show "snd (topIntent q) = 0" by blast
  qed
qed

lemma classify_General_iff: "classify q = General \<longleftrightarrow> (\<forall>e\<in>set (scores q). snd e = 0)"
  using fst_scores_not_General [OF topIntent_in_scores, of q] topIntent_zero_iff [of q]
  by (auto simp: classify_def)

lemma scores_zero_iff:
  "(\<forall>e\<in>set (scores q). snd e = 0) \<longleftrightarrow> (\<forall>e\<in>set score_table. \<forall>t\<in>set (snd e). \<not> sublist t q)"
  by (auto simp: scores_def has_zero_iff case_prod_unfold)

section \<open>Facts about normalisation\<close>

text \<open>
  A word occurs in the normalised question exactly when it occurs in the lower-cased
  one: replacing punctuation, collapsing white space and trimming neither make nor break
  a run of code units that has no white space or punctuation in it.
\<close>

lemma is_space_0x20: "is_space 0x20"
  by (simp add: is_space_def)

lemma prefix_collapse_spaces:
  "list_all (\<lambda>u. \<not> is_space u) w \<Longrightarrow> prefix w (collapse_spaces s) = prefix w s"
proof (induction s arbitrary: w rule: collapse_spaces.induct)
  case 1
  then show ?case by simp
next
  case (2 x xs)
  show ?case
  proof (cases w)
    case Nil
    then show ?thesis by simp
  next
    case (Cons a w')
    with 2 show ?thesis by (auto simp: is_space_0x20)
  qed
qed

lemma sublist_dropWhile_space:
  "w \<noteq> [] \<Longrightarrow> \<not> is_space (hd w) \<Longrightarrow> sublist w (dropWhile is_space s) = sublist w s"
proof (induction s)
  case Nil
  then show ?case by simp
next
  case (Cons x xs)
  then show ?case by (cases w) (auto simp: sublist_Cons_right)
qed

lemma sublist_collapse_spaces:
  "w \<noteq> [] \<Longrightarrow> list_all (\<lambda>u. \<not> is_space u) w \<Longrightarrow>
     sublist w (collapse_spaces s) = sublist w s"
proof (induction s rule: collapse_spaces.induct)
  case 1
  then show ?case by simp
next
  case (2 x xs)
  from 2(3,4) have hd: "\<not> is_space (hd w)" by (cases w) simp_all
  show ?case
  proof (cases "is_space x")
    case True
    have "\<not> prefix w (0x20 # collapse_spaces (dropWhile is_space xs))"
      using 2(3) hd by (cases w) (auto simp: is_space_0x20)
    moreover have "\<not> prefix w (x # xs)"
      using 2(3) hd True by (cases w) auto
    ultimately show ?thesis
      using True 2(1) [OF True 2(3,4)] sublist_dropWhile_space [OF 2(3) hd, of xs]
      by (simp add: sublist_Cons_right)
  next
    case False
    have "prefix w (x # collapse_spaces xs) = prefix w (x # xs)"
      using prefix_collapse_spaces [OF 2(4), of "x # xs"] False by simp
    then show ?thesis
      using False 2(2) [OF False 2(3,4)] by (simp add: sublist_Cons_right)
  qed
qed

lemma sublist_trim:
  assumes "w \<noteq> []" "list_all (\<lambda>u. \<not> is_space u) w"
  shows "sublist w (trim s) = sublist w s"
proof -
  have hd: "\<not> is_space (hd w)" using assms by (cases w) simp_all
  have lst: "\<not> is_space (hd (rev w))"
    using assms by (simp add: hd_rev list_all_iff)
  have "sublist w (trim s) = sublist w (trim_end s)"
    unfolding trim_def by (rule sublist_dropWhile_space [OF assms(1) hd])
  also have "\<dots> = sublist (rev w) (dropWhile is_space (rev s))"
    unfolding trim_end_def by (simp add: sublist_rev_right)
  also have "\<dots> = sublist (rev w) (rev s)"
    using assms(1) lst by (intro sublist_dropWhile_space) simp_all
  finally show ?thesis by simp
qed

lemma prefix_replace_punct:
  "list_all (\<lambda>u. \<not> is_space u \<and> \<not> is_punct u) w \<Longrightarrow>
     prefix w (replace_punct s) = prefix w s"
proof (induction s arbitrary: w)
  case Nil
  then show ?case by (simp add: replace_punct_def)
next
  case (Cons x xs)
  show ?case
  proof (cases w)
    case Nil
    then show ?thesis by simp
  next
    case (Cons a w')
    with Cons.prems have a: "\<not> is_space a" "\<not> is_punct a"
      and w': "list_all (\<lambda>u. \<not> is_space u \<and> \<not> is_punct u) w'" by simp_all
    have "a = (if is_punct x then 0x20 else x) \<longleftrightarrow> a = x"
      using a is_space_0x20 by auto
    then show ?thesis
      using Cons.IH [OF w'] Cons by (simp add: replace_punct_def)
  qed
qed

lemma sublist_replace_punct:
  "list_all (\<lambda>u. \<not> is_space u \<and> \<not> is_punct u) w \<Longrightarrow>
     sublist w (replace_punct s) = sublist w s"
proof (induction s)
  case Nil
  then show ?case by (simp add: replace_punct_def)
next
  case (Cons x xs)
  have "replace_punct (x # xs) = (if is_punct x then 0x20 else x) # replace_punct xs"
    by (simp add: replace_punct_def)
  then show ?case
    using Cons prefix_replace_punct [OF Cons.prems, of "x # xs"]
    by (simp add: sublist_Cons_right)
qed

lemma sublist_normalize:
  assumes "word_like w"
  shows "sublist w (normalize_question rt msg) = sublist w (toLowerCase rt msg)"
proof -
  have ne: "w \<noteq> []" and sp: "list_all (\<lambda>u. \<not> is_space u) w"
    and pu: "list_all (\<lambda>u. \<not> is_space u \<and> \<not> is_punct u) w"
    using assms by (simp_all add: word_like_def list_all_iff)
  show ?thesis
    unfolding normalize_question_def
    by (simp add: sublist_trim [OF ne sp] sublist_collapse_spaces [OF ne sp]
        sublist_replace_punct [OF pu])
qed


lemma trim_end_Nil [simp]: "trim_end [] = []"
  by (simp add: trim_end_def)












lemma conforming_ascii_runtime: "conforming ascii_runtime"
  by (simp add: conforming_def ascii_runtime_def)


lemma CROPS_plain: "c \<in> set CROPS \<Longrightarrow> list_all plain_unit c"
  by (auto simp: CROPS_def asc_def plain_unit_def)

lemma CROPS_word_like: "c \<in> set CROPS \<Longrightarrow> word_like (map lower_unit c)"
  by (auto simp: CROPS_def asc_def word_like_def lower_unit_def is_space_def is_punct_def)

lemma conforming_CROPS:
  "conforming rt \<Longrightarrow> c \<in> set CROPS \<Longrightarrow> toLowerCase rt c = map lower_unit c"
  using CROPS_plain by (simp add: conforming_def)

lemma mentionedCrop_find:
  assumes "conforming rt"
  shows "mentionedCrop rt (normalize_question rt msg) crop =
    (case find (\<lambda>c. sublist (map lower_unit c) (toLowerCase rt msg)) CROPS of
       Some c \<Rightarrow> c | None \<Rightarrow> crop)"
proof -
  have "find (\<lambda>c. str_includes (normalize_question rt msg) (toLowerCase rt c)) CROPS
      = find (\<lambda>c. sublist (map lower_unit c) (toLowerCase rt msg)) CROPS"
    by (rule find_cong [OF refl])
      (simp add: str_includes_sublist conforming_CROPS [OF assms]
        sublist_normalize [OF CROPS_word_like])
  then show ?thesis by (simp add: mentionedCrop_def)
qed

section \<open>Facts about the templates and the lookups\<close>

lemma sublist_here: "sublist t (t @ ys)"
  by simp

lemma sublist_skip: "sublist t ys \<Longrightarrow> sublist t (xs @ ys)"
  by (metis sublist_append append_Nil sublist_Nil_left)

lemma renderFallback_has_crop:
  "intent \<noteq> Loan \<Longrightarrow> sublist mc (renderFallback intent msg mc cm ct)"
  by (cases intent; simp only: renderFallback.simps simp_thms;
      (rule sublist_here | rule sublist_skip)+)

lemma renderFallback_has_harvest:
  "intent \<in> {Price, Sell, Profit, Harvest, General} \<Longrightarrow>
     sublist (show_text (harvest_of cm)) (renderFallback intent msg mc cm ct)"
  by (cases intent; simp only: renderFallback.simps simp_thms insert_iff empty_iff intent.distinct;
      (rule sublist_here | rule sublist_skip)+)

lemma renderFallback_Loan_fixed:
  "renderFallback Loan msg mc cm ct = renderFallback Loan msg' mc' cm' ct'"
  by simp

lemma renderFallback_ignores_harvest:
  "intent \<notin> {Price, Sell, Profit, Harvest, General} \<Longrightarrow>
     renderFallback intent msg mc (Own (r\<lparr>harvest := h\<rparr>)) ct
       = renderFallback intent msg mc (Own r) ct"
  by (cases intent) (simp_all add: season_of_def)

lemma get_slot_absent:
  "k \<notin> fst ` set obj \<Longrightarrow> k \<notin> set object_prototype_names \<Longrightarrow> get_slot obj k = None"
proof -
  assume "k \<notin> fst ` set obj" and n: "k \<notin> set object_prototype_names"
  then have "map_of obj k = None" by (simp add: map_of_eq_None_iff)
  with n show ?thesis by (simp add: get_slot_def)
qed








section \<open>The model at concrete questions\<close>

lemmas eval_normalize =
  normalize_question_def ascii_runtime_def asc_def lower_unit_def replace_punct_def is_punct_def
  is_space_def trim_def trim_end_def


lemma scores_kitna:
  "scores (asc ''kitna'') =
     [(Price, 1), (Sell, 0), (Msp, 0), (Storage, 0), (Weather, 0), (Profit, 0), (Disease, 1),
      (Fertilizer, 0), (Water, 0), (Loan, 0), (Export, 0), (Sowing, 0), (Harvest, 0),
      (Variety, 0), (Transport, 0)]"
  by (simp add: scores_def score_table_def has_def asc_def)

lemma scores_hello:
  "scores (asc ''hello'') =
     [(Price, 0), (Sell, 0), (Msp, 0), (Storage, 0), (Weather, 0), (Profit, 0), (Disease, 0),
      (Fertilizer, 0), (Water, 0), (Loan, 0), (Export, 0), (Sowing, 0), (Harvest, 0),
      (Variety, 0), (Transport, 0)]"
  by (simp add: scores_def score_table_def has_def asc_def)

lemma scores_msp_subsidy_price:
  "scores (asc ''msp subsidy price'') =
     [(Price, 1), (Sell, 0), (Msp, 2), (Storage, 0), (Weather, 0), (Profit, 0), (Disease, 0),
      (Fertilizer, 0), (Water, 0), (Loan, 0), (Export, 0), (Sowing, 0), (Harvest, 0),
      (Variety, 0), (Transport, 0)]"
  by (simp add: scores_def score_table_def has_def asc_def)



lemma scores_loan:
  "scores (asc ''loan'') =
     [(Price, 0), (Sell, 0), (Msp, 0), (Storage, 0), (Weather, 0), (Profit, 0), (Disease, 0),
      (Fertilizer, 0), (Water, 0), (Loan, 1), (Export, 0), (Sowing, 0), (Harvest, 0),
      (Variety, 0), (Transport, 0)]"
  by (simp add: scores_def score_table_def has_def asc_def)


lemma scores_bhav:
  "scores (asc ''bhav'') =
     [(Price, 1), (Sell, 0), (Msp, 0), (Storage, 0), (Weather, 0), (Profit, 0), (Disease, 0),
      (Fertilizer, 0), (Water, 0), (Loan, 0), (Export, 0), (Sowing, 0), (Harvest, 0),
      (Variety, 0), (Transport, 0)]"
  by (simp add: scores_def score_table_def has_def asc_def)



lemma normalize_loan: "normalize_question ascii_runtime (asc ''loan'') = asc ''loan''"
  by (simp add: eval_normalize)


lemma normalize_bhav: "normalize_question ascii_runtime (asc ''Bhav?'') = asc ''bhav''"
  by (simp add: eval_normalize)

lemma classify_loan: "classify (asc ''loan'') = Loan"
  by (simp add: classify_def topIntent_def scores_loan sort_desc_def)


lemma classify_bhav: "classify (asc ''bhav'') = Price"
  by (simp add: classify_def topIntent_def scores_bhav sort_desc_def)

lemma mentionedCrop_loan:
  "mentionedCrop ascii_runtime (asc ''loan'') (asc ''Wheat'') = asc ''Wheat''"
  by (simp add: mentionedCrop_def CROPS_def ascii_runtime_def asc_def lower_unit_def)

lemma mentionedCrop_bhav:
  "mentionedCrop ascii_runtime (asc ''bhav'') (asc ''Wheat'') = asc ''Wheat''"
  by (simp add: mentionedCrop_def CROPS_def ascii_runtime_def asc_def lower_unit_def)



lemma lower_rice_and_wheat:
  "toLowerCase ascii_runtime (asc ''Rice and wheat'') = asc ''rice and wheat''"
  by (simp add: ascii_runtime_def asc_def lower_unit_def)

lemma get_slot_Wheat:
  "get_slot CROP_META (asc ''Wheat'') =
     Some (Own \<lparr>icon = Some [0xD83C, 0xDF3E], season = asc ''Rabi'', harvest = asc ''Mar-Apr'',
        base = 2200, vol = 6 / 100\<rparr>)"
  by (simp add: get_slot_def CROP_META_def asc_def)

lemma get_tip_Wheat:
  "get_slot CROP_TIPS (asc ''Wheat'') =
     Some (Own (asc ''Prices typically rise post-harvest export season (Apr'' @ [0x2013] @
       asc ''Jun). Best to store until May.''))"
  by (simp add: get_slot_def CROP_TIPS_def asc_def)



lemma getLocalFallback_loan:
  "getLocalFallback ascii_runtime (asc ''loan'') (asc ''Wheat'') =
     renderFallback Loan (asc ''loan'') (asc ''Wheat'')
       (Own \<lparr>icon = Some [0xD83C, 0xDF3E], season = asc ''Rabi'', harvest = asc ''Mar-Apr'',
          base = 2200, vol = 6 / 100\<rparr>)
       (asc ''Prices typically rise post-harvest export season (Apr'' @ [0x2013] @
        asc ''Jun). Best to store until May.'')"
proof -
  have "asc ''Prices typically rise post-harvest export season (Apr'' @ [0x2013] @
       asc ''Jun). Best to store until May.'' \<noteq> []"
    by (simp add: asc_def)
  then show ?thesis
    by (simp add: getLocalFallback_def normalize_loan classify_loan mentionedCrop_loan
      get_slot_Wheat get_tip_Wheat meta_or_def tip_or_def show_tip_def Let_def)
qed

lemma getLocalFallback_bhav:
  "getLocalFallback ascii_runtime (asc ''Bhav?'') (asc ''Wheat'') =
     renderFallback Price (asc ''Bhav?'') (asc ''Wheat'')
       (Own \<lparr>icon = Some [0xD83C, 0xDF3E], season = asc ''Rabi'', harvest = asc ''Mar-Apr'',
          base = 2200, vol = 6 / 100\<rparr>)
       (asc ''Prices typically rise post-harvest export season (Apr'' @ [0x2013] @
        asc ''Jun). Best to store until May.'')"
proof -
  have "asc ''Prices typically rise post-harvest export season (Apr'' @ [0x2013] @
       asc ''Jun). Best to store until May.'' \<noteq> []"
    by (simp add: asc_def)
  then show ?thesis
    by (simp add: getLocalFallback_def normalize_bhav classify_bhav mentionedCrop_bhav
      get_slot_Wheat get_tip_Wheat meta_or_def tip_or_def show_tip_def Let_def)
qed

lemma trim_blank: "trim (asc ''  '') = []"
  by (simp add: trim_def trim_end_def asc_def is_space_def)

section \<open>The claims\<close>

text \<open>
  C1, as the specification states it, fails: the answer to a question is said to contain
  the name of the resolved crop and its harvest window whatever the intent. The question
  \<open>loan\<close> asked about Wheat is classified as \<open>Loan\<close>, the resolved crop is Wheat with
  harvest window \<open>Mar-Apr\<close>, and the answer contains neither \<open>Wheat\<close> nor \<open>Mar-Apr\<close>.
\<close>

theorem loan_answer_counterexample:
  "classify (normalize_question ascii_runtime (asc ''loan'')) = Loan
   \<and> mentionedCrop ascii_runtime (normalize_question ascii_runtime (asc ''loan'')) (asc ''Wheat'')
       = asc ''Wheat''
   \<and> harvest_of (meta_or (get_slot CROP_META (asc ''Wheat'')) (Own default_meta))
       = Some (asc ''Mar-Apr'')
   \<and> \<not> sublist (asc ''Wheat'') (getLocalFallback ascii_runtime (asc ''loan'') (asc ''Wheat''))
   \<and> \<not> sublist (asc ''Mar-Apr'') (getLocalFallback ascii_runtime (asc ''loan'') (asc ''Wheat''))"
proof (intro conjI)
  show "classify (normalize_question ascii_runtime (asc ''loan'')) = Loan"
    by (simp add: normalize_loan classify_loan)
  show "mentionedCrop ascii_runtime (normalize_question ascii_runtime (asc ''loan'')) (asc ''Wheat'')
       = asc ''Wheat''"
    by (simp add: normalize_loan mentionedCrop_loan)
  show "harvest_of (meta_or (get_slot CROP_META (asc ''Wheat'')) (Own default_meta))
       = Some (asc ''Mar-Apr'')"
    by (simp add: get_slot_Wheat meta_or_def harvest_of_def)
  show "\<not> sublist (asc ''Wheat'') (getLocalFallback ascii_runtime (asc ''loan'') (asc ''Wheat''))"
    unfolding getLocalFallback_loan str_includes_sublist [symmetric]
    by (simp add: asc_def)
  show "\<not> sublist (asc ''Mar-Apr'') (getLocalFallback ascii_runtime (asc ''loan'') (asc ''Wheat''))"
    unfolding getLocalFallback_loan str_includes_sublist [symmetric]
    by (simp add: asc_def)
qed

text \<open>
  C1, amended: for every question, crop name, metadata and tip, the answer of every
  intent other than \<open>Loan\<close> contains the name of the resolved crop, and the answers of
  the intents \<open>Price\<close>, \<open>Sell\<close>, \<open>Profit\<close>, \<open>Harvest\<close> and \<open>General\<close> also contain
  the harvest window of its metadata, as the template prints it. The answer of \<open>Loan\<close>
  is one fixed text, the same for every question, crop, metadata and tip, so it names
  no crop; and the answer of each of the eleven other intents stays the same when the
  harvest window of the metadata is changed and nothing else, so it prints no harvest
  window.
\<close>

theorem renderFallback_names_crop:
  "(intent \<noteq> Loan \<longrightarrow> sublist mc (renderFallback intent msg mc cm ct))
   \<and> (intent \<in> {Price, Sell, Profit, Harvest, General}
        \<longrightarrow> sublist (show_text (harvest_of cm)) (renderFallback intent msg mc cm ct))
   \<and> renderFallback Loan msg mc cm ct = renderFallback Loan msg' mc' cm' ct'
   \<and> (intent \<notin> {Price, Sell, Profit, Harvest, General}
        \<longrightarrow> renderFallback intent msg mc (Own (r\<lparr>harvest := h\<rparr>)) ct
              = renderFallback intent msg mc (Own r) ct)"
proof (intro conjI impI)
  assume "intent \<noteq> Loan"
  then show "sublist mc (renderFallback intent msg mc cm ct)"
    by (rule renderFallback_has_crop)
next
  assume "intent \<in> {Price, Sell, Profit, Harvest, General}"
  then show "sublist (show_text (harvest_of cm)) (renderFallback intent msg mc cm ct)"
    by (rule renderFallback_has_harvest)
next
  show "renderFallback Loan msg mc cm ct = renderFallback Loan msg' mc' cm' ct'"
    by (rule renderFallback_Loan_fixed)
next
  assume "intent \<notin> {Price, Sell, Profit, Harvest, General}"
  then show "renderFallback intent msg mc (Own (r\<lparr>harvest := h\<rparr>)) ct
      = renderFallback intent msg mc (Own r) ct"
    by (rule renderFallback_ignores_harvest)
qed

theorem renderFallback_names_crop_witness:
  "sublist (asc ''Wheat'') (getLocalFallback ascii_runtime (asc ''Bhav?'') (asc ''Wheat''))
   \<and> sublist (asc ''Mar-Apr'') (getLocalFallback ascii_runtime (asc ''Bhav?'') (asc ''Wheat''))"
proof -
  have h: "show_text (harvest_of
      (Own \<lparr>icon = Some [0xD83C, 0xDF3E], season = asc ''Rabi'', harvest = asc ''Mar-Apr'',
          base = 2200, vol = 6 / 100\<rparr>)) = asc ''Mar-Apr''"
    by (simp add: show_text_def harvest_of_def)
  have a: "sublist (asc ''Wheat'')
      (renderFallback Price (asc ''Bhav?'') (asc ''Wheat'')
        (Own \<lparr>icon = Some [0xD83C, 0xDF3E], season = asc ''Rabi'', harvest = asc ''Mar-Apr'',
            base = 2200, vol = 6 / 100\<rparr>)
        (asc ''Prices typically rise post-harvest export season (Apr'' @ [0x2013] @
         asc ''Jun). Best to store until May.''))"
    by (rule renderFallback_names_crop [where intent = Price, THEN conjunct1, THEN mp]) simp
  have b: "sublist (show_text (harvest_of
        (Own \<lparr>icon = Some [0xD83C, 0xDF3E], season = asc ''Rabi'', harvest = asc ''Mar-Apr'',
            base = 2200, vol = 6 / 100\<rparr>)))
      (renderFallback Price (asc ''Bhav?'') (asc ''Wheat'')
        (Own \<lparr>icon = Some [0xD83C, 0xDF3E], season = asc ''Rabi'', harvest = asc ''Mar-Apr'',
            base = 2200, vol = 6 / 100\<rparr>)
        (asc ''Prices typically rise post-harvest export season (Apr'' @ [0x2013] @
         asc ''Jun). Best to store until May.''))"
    by (rule renderFallback_names_crop [where intent = Price, THEN conjunct2, THEN conjunct1,
          THEN mp]) simp
  show ?thesis
    by (simp only: getLocalFallback_bhav a b [unfolded h] simp_thms)
qed

text \<open>
  C2: when some keyword occurs, \<open>classify\<close> returns the intent of a maximal score, and
  among the intents of that score the one declared first; so of two intents the one with
  fewer matched keywords is never returned. \<open>classify\<close> is a function of the question,
  hence the same at every call.
\<close>

theorem classify_first_maximum:
  assumes "\<exists>e\<in>set (scores q). 0 < snd e"
  shows "(\<exists>k<length (scores q). classify q = fst (scores q ! k)
            \<and> (\<forall>j<length (scores q). snd (scores q ! j) \<le> snd (scores q ! k))
            \<and> (\<forall>j<k. snd (scores q ! j) < snd (scores q ! k)))
         \<and> (\<forall>a b m n. (a, m) \<in> set (scores q) \<and> (b, n) \<in> set (scores q) \<and> n < m
               \<longrightarrow> classify q \<noteq> b)"
proof -
  obtain k where k: "k < length (scores q)" and t: "topIntent q = scores q ! k"
    and mx: "\<forall>j<length (scores q). snd (scores q ! j) \<le> snd (scores q ! k)"
    and fs: "\<forall>j<k. snd (scores q ! j) < snd (scores q ! k)"
    using topIntent_first_maximum by blast
  have "snd (topIntent q) \<noteq> 0"
    using assms topIntent_zero_iff [of q] by auto
  then have c: "classify q = fst (scores q ! k)"
    by (simp add: classify_def t)
  have "classify q \<noteq> b" if a: "(a, m) \<in> set (scores q)" and b: "(b, n) \<in> set (scores q)"
    and lt: "n < m" for a b m n
  proof
    assume eq: "classify q = b"
    from b obtain j where j: "j < length (scores q)" and sj: "scores q ! j = (b, n)"
      by (auto simp: in_set_conv_nth)
    from a obtain i where i: "i < length (scores q)" and si: "scores q ! i = (a, m)"
      by (auto simp: in_set_conv_nth)
    have "map fst (scores q) ! j = map fst (scores q) ! k"
      using j k sj c eq by simp
    moreover have "j < length (map fst (scores q))" "k < length (map fst (scores q))"
      using j k by simp_all
    ultimately have "j = k"
      using distinct_fst_scores [of q] nth_eq_iff_index_eq by blast
    then have "snd (scores q ! k) = n" using sj by simp
    moreover have "m \<le> snd (scores q ! k)" using mx i si by fastforce
    ultimately show False using lt by simp
  qed
  with k c mx fs show ?thesis by blast
qed

theorem classify_first_maximum_witness:
  "(\<exists>e\<in>set (scores (asc ''msp subsidy price'')). 0 < snd e)
   \<and> (Price, 1) \<in> set (scores (asc ''msp subsidy price''))
   \<and> (Msp, 2) \<in> set (scores (asc ''msp subsidy price''))
   \<and> classify (asc ''msp subsidy price'') \<noteq> Price
   \<and> (\<exists>k<length (scores (asc ''msp subsidy price'')).
         classify (asc ''msp subsidy price'') = fst (scores (asc ''msp subsidy price'') ! k)
         \<and> (\<forall>j<k. snd (scores (asc ''msp subsidy price'') ! j)
                    < snd (scores (asc ''msp subsidy price'') ! k)))"
proof -
  have h: "\<exists>e\<in>set (scores (asc ''msp subsidy price'')). 0 < snd e"
    by (simp add: scores_msp_subsidy_price)
  have p: "(Price, 1) \<in> set (scores (asc ''msp subsidy price''))"
    and m: "(Msp, 2) \<in> set (scores (asc ''msp subsidy price''))"
    by (simp_all add: scores_msp_subsidy_price)
  from classify_first_maximum [OF h] h p m show ?thesis
    by (metis one_less_numeral_iff semiring_norm(76))
qed

text \<open>
  C3: the fifteen scored intents are the ones other than \<open>General\<close>, and \<open>classify\<close>
  returns \<open>General\<close> exactly when all fifteen scores are zero, which is exactly when no
  keyword of any list occurs in the question.
\<close>

theorem classify_general_iff_all_zero:
  "map fst (scores q) =
     [Price, Sell, Msp, Storage, Weather, Profit, Disease, Fertilizer, Water, Loan, Export,
      Sowing, Harvest, Variety, Transport]
   \<and> (classify q = General \<longleftrightarrow> (\<forall>e\<in>set (scores q). snd e = 0))
   \<and> (classify q = General \<longleftrightarrow> (\<forall>e\<in>set score_table. \<forall>t\<in>set (snd e). \<not> sublist t q))"
  using classify_General_iff [of q] scores_zero_iff [of q]
  by (simp add: map_fst_scores map_fst_score_table)

theorem classify_general_iff_all_zero_witness:
  "map snd (scores (asc ''hello'')) = replicate 15 0 \<and> classify (asc ''hello'') = General"
proof -
  have z: "\<forall>e\<in>set (scores (asc ''hello'')). snd e = 0"
    by (simp add: scores_hello)
  have "classify (asc ''hello'') = General"
    using classify_general_iff_all_zero [of "asc ''hello''"] z by blast
  then show ?thesis
    by (simp add: scores_hello eval_nat_numeral)
qed

text \<open>
  C4, as the specification states it, fails: the irrigation message is said to differ
  across five named crops. Of the ten crops six (Maize, Onion, Potato, Soybean, Cotton
  and Chilli) get the message of a crop the program does not know, so at most four are
  told apart. Nor are the two templates the only ones with a branch for a crop: the
  weather template has one for Tomato.
\<close>

theorem water_four_named_crops_counterexample:
  "water_requirement (asc ''Maize'') = water_requirement (asc ''Banana'')
   \<and> water_requirement (asc ''Onion'') = water_requirement (asc ''Banana'')
   \<and> water_requirement (asc ''Potato'') = water_requirement (asc ''Banana'')
   \<and> water_requirement (asc ''Soybean'') = water_requirement (asc ''Banana'')
   \<and> water_requirement (asc ''Cotton'') = water_requirement (asc ''Banana'')
   \<and> water_requirement (asc ''Chilli'') = water_requirement (asc ''Banana'')
   \<and> CROPS = [asc ''Wheat'', asc ''Rice'', asc ''Maize'', asc ''Tomato'', asc ''Onion'',
        asc ''Potato'', asc ''Soybean'', asc ''Cotton'', asc ''Sugarcane'', asc ''Chilli'']
   \<and> cold_wave_effect (asc ''Tomato'') \<noteq> cold_wave_effect (asc ''Banana'')"
  by (simp add: water_requirement_def cold_wave_effect_def CROPS_def asc_def)

text \<open>
  C4, amended: the storage template's estimate differs from the general one exactly for
  Potato and Onion, which share one estimate; the water template's requirement differs
  from the general one exactly for the four crops Rice, Sugarcane, Wheat and Tomato,
  whose four messages and the general one are five different texts. The weather,
  export, harvest, variety and transport templates have a branch for a crop as well.
\<close>

theorem crop_specific_branches:
  "(storage_premium c \<noteq> storage_premium (asc ''Banana'')
      \<longleftrightarrow> c \<in> {asc ''Potato'', asc ''Onion''})
   \<and> storage_premium (asc ''Potato'') = storage_premium (asc ''Onion'')
   \<and> (water_requirement c \<noteq> water_requirement (asc ''Banana'')
      \<longleftrightarrow> c \<in> {asc ''Rice'', asc ''Sugarcane'', asc ''Wheat'', asc ''Tomato''})
   \<and> distinct (map water_requirement
        [asc ''Rice'', asc ''Sugarcane'', asc ''Wheat'', asc ''Tomato'', asc ''Banana''])
   \<and> cold_wave_effect (asc ''Tomato'') \<noteq> cold_wave_effect (asc ''Banana'')
   \<and> export_markets (asc ''Chilli'') \<noteq> export_markets (asc ''Banana'')
   \<and> maturity_signs (asc ''Wheat'') \<noteq> maturity_signs (asc ''Banana'')
   \<and> recommended_varieties (asc ''Wheat'') \<noteq> recommended_varieties (asc ''Banana'')
   \<and> perishable_name (asc ''Tomato'') \<noteq> perishable_name (asc ''Banana'')"
proof (intro conjI)
  show "storage_premium c \<noteq> storage_premium (asc ''Banana'')
      \<longleftrightarrow> c \<in> {asc ''Potato'', asc ''Onion''}"
    by (simp add: storage_premium_def asc_def)
  show "storage_premium (asc ''Potato'') = storage_premium (asc ''Onion'')"
    by (simp add: storage_premium_def asc_def)
  show "water_requirement c \<noteq> water_requirement (asc ''Banana'')
      \<longleftrightarrow> c \<in> {asc ''Rice'', asc ''Sugarcane'', asc ''Wheat'', asc ''Tomato''}"
    by (auto simp: water_requirement_def asc_def)
  show "distinct (map water_requirement
        [asc ''Rice'', asc ''Sugarcane'', asc ''Wheat'', asc ''Tomato'', asc ''Banana''])"
    by (simp add: water_requirement_def asc_def)
  show "cold_wave_effect (asc ''Tomato'') \<noteq> cold_wave_effect (asc ''Banana'')"
    by (simp add: cold_wave_effect_def asc_def)
  show "export_markets (asc ''Chilli'') \<noteq> export_markets (asc ''Banana'')"
    by (simp add: export_markets_def asc_def)
  show "maturity_signs (asc ''Wheat'') \<noteq> maturity_signs (asc ''Banana'')"
    by (simp add: maturity_signs_def asc_def)
  show "recommended_varieties (asc ''Wheat'') \<noteq> recommended_varieties (asc ''Banana'')"
    by (simp add: recommended_varieties_def asc_def)
  show "perishable_name (asc ''Tomato'') \<noteq> perishable_name (asc ''Banana'')"
    by (simp add: perishable_name_def asc_def)
qed

text \<open>
  C5: \<open>getAIReply\<close> never raises. Whatever the request comes back with, it returns a
  string; every exception of the \<^verbatim>\<open>try\<close> block (the network failing, a status
  outside 200 to 299, a body that is not JSON, a type error while reading the parsed
  body) is answered with \<open>getLocalFallback\<close>; and a reply that parses to a text
  which is empty after trimming is answered with the fixed message, not with the
  fallback.
\<close>

theorem getAIReply_never_raises:
  "(\<exists>s. getAIReply rt outcome msg crop = Inr s)
   \<and> (\<forall>e. try_remote outcome = Inl e
          \<longrightarrow> getAIReply rt outcome msg crop = Inr (getLocalFallback rt msg crop))
   \<and> getAIReply rt NetworkFailure msg crop = Inr (getLocalFallback rt msg crop)
   \<and> (\<not> ok status
          \<longrightarrow> getAIReply rt (Response status body) msg crop = Inr (getLocalFallback rt msg crop))
   \<and> getAIReply rt (Response status None) msg crop = Inr (getLocalFallback rt msg crop)
   \<and> (ok status \<and> reply_text data = Inr text \<and> trim text = []
          \<longrightarrow> getAIReply rt (Response status (Some data)) msg crop = Inr no_response)
   \<and> (ok status \<and> reply_text data = Inr text \<and> trim text \<noteq> []
          \<longrightarrow> getAIReply rt (Response status (Some data)) msg crop = Inr (trim text))"
  by (auto simp: getAIReply_def try_remote_def split: sum.splits fetch_outcome.splits
      option.splits)

theorem getAIReply_never_raises_witness:
  "ok 200
   \<and> reply_text (JObject [(asc ''content'',
         JArray [JObject [(asc ''type'', JString (asc ''text'')),
                          (asc ''text'', JString (asc ''  ''))]])]) = Inr (asc ''  '')
   \<and> getAIReply ascii_runtime
        (Response 200 (Some (JObject [(asc ''content'',
           JArray [JObject [(asc ''type'', JString (asc ''text'')),
                            (asc ''text'', JString (asc ''  ''))]])])))
        (asc ''loan'') (asc ''Wheat'') = Inr no_response
   \<and> \<not> ok 503
   \<and> getAIReply ascii_runtime (Response 503 None) (asc ''loan'') (asc ''Wheat'')
       = Inr (getLocalFallback ascii_runtime (asc ''loan'') (asc ''Wheat''))
   \<and> try_remote (Response 200 (Some (JObject [(asc ''content'', JString (asc ''hi''))])))
       = Inl TypeError
   \<and> getAIReply ascii_runtime
        (Response 200 (Some (JObject [(asc ''content'', JString (asc ''hi''))])))
        (asc ''loan'') (asc ''Wheat'')
       = Inr (getLocalFallback ascii_runtime (asc ''loan'') (asc ''Wheat''))"
proof -
  have k: "ok 200" and n: "\<not> ok 503"
    by (simp_all add: ok_def)
  have r: "reply_text (JObject [(asc ''content'',
         JArray [JObject [(asc ''type'', JString (asc ''text'')),
                          (asc ''text'', JString (asc ''  ''))]])]) = Inr (asc ''  '')"
    by (simp add: content_text_def asc_def)
  have t: "try_remote (Response 200 (Some (JObject [(asc ''content'', JString (asc ''hi''))])))
       = Inl TypeError"
    by (simp add: try_remote_def k content_text_def asc_def)
  note T = getAIReply_never_raises [of ascii_runtime _ "asc ''loan''" "asc ''Wheat''"]
  have "getAIReply ascii_runtime
        (Response 200 (Some (JObject [(asc ''content'',
           JArray [JObject [(asc ''type'', JString (asc ''text'')),
                            (asc ''text'', JString (asc ''  ''))]])])))
        (asc ''loan'') (asc ''Wheat'') = Inr no_response"
    using T [of _ 200 _ _ "asc ''  ''"] k r trim_blank by blast
  moreover have "getAIReply ascii_runtime (Response 503 None) (asc ''loan'') (asc ''Wheat'')
       = Inr (getLocalFallback ascii_runtime (asc ''loan'') (asc ''Wheat''))"
    using T [of _ 503 None] n by blast
  moreover have "getAIReply ascii_runtime
        (Response 200 (Some (JObject [(asc ''content'', JString (asc ''hi''))])))
        (asc ''loan'') (asc ''Wheat'')
       = Inr (getLocalFallback ascii_runtime (asc ''loan'') (asc ''Wheat''))"
    using T [of "Response 200 (Some (JObject [(asc ''content'', JString (asc ''hi''))]))"] t
    by blast
  ultimately show ?thesis using k n r t by simp
qed

text \<open>
  C6: on a conforming runtime the resolved crop is the caller's crop when none of the
  ten names, lower-cased, occurs in the lower-cased question, and otherwise the first
  name of \<open>CROPS\<close> that occurs, wherever in the question it stands.
\<close>

theorem mentionedCrop_first_in_CROPS:
  assumes "conforming rt"
  shows "(\<not> (\<exists>c\<in>set CROPS. sublist (map lower_unit c) (toLowerCase rt msg))
            \<longrightarrow> mentionedCrop rt (normalize_question rt msg) crop = crop)
       \<and> (\<forall>i<length CROPS.
            sublist (map lower_unit (CROPS ! i)) (toLowerCase rt msg)
            \<and> (\<forall>j<i. \<not> sublist (map lower_unit (CROPS ! j)) (toLowerCase rt msg))
            \<longrightarrow> mentionedCrop rt (normalize_question rt msg) crop = CROPS ! i)"
proof (intro conjI impI allI)
  assume "\<not> (\<exists>c\<in>set CROPS. sublist (map lower_unit c) (toLowerCase rt msg))"
  then have "find (\<lambda>c. sublist (map lower_unit c) (toLowerCase rt msg)) CROPS = None"
    by (simp add: find_None_iff)
  then show "mentionedCrop rt (normalize_question rt msg) crop = crop"
    by (simp add: mentionedCrop_find [OF assms])
next
  fix i
  assume "i < length CROPS"
    and "sublist (map lower_unit (CROPS ! i)) (toLowerCase rt msg)
      \<and> (\<forall>j<i. \<not> sublist (map lower_unit (CROPS ! j)) (toLowerCase rt msg))"
  then have "find (\<lambda>c. sublist (map lower_unit c) (toLowerCase rt msg)) CROPS = Some (CROPS ! i)"
    by (auto simp: find_Some_iff)
  then show "mentionedCrop rt (normalize_question rt msg) crop = CROPS ! i"
    by (simp add: mentionedCrop_find [OF assms])
qed

theorem mentionedCrop_first_in_CROPS_witness:
  "conforming ascii_runtime
   \<and> CROPS ! 0 = asc ''Wheat''
   \<and> sublist (asc ''rice'') (toLowerCase ascii_runtime (asc ''Rice and wheat''))
   \<and> mentionedCrop ascii_runtime (normalize_question ascii_runtime (asc ''Rice and wheat''))
        (asc ''Potato'') = asc ''Wheat''"
proof -
  have w: "sublist (map lower_unit (CROPS ! 0)) (toLowerCase ascii_runtime (asc ''Rice and wheat''))"
    unfolding lower_rice_and_wheat str_includes_sublist [symmetric]
    by (simp add: CROPS_def asc_def lower_unit_def)
  have r: "sublist (asc ''rice'') (toLowerCase ascii_runtime (asc ''Rice and wheat''))"
    unfolding lower_rice_and_wheat str_includes_sublist [symmetric]
    by (simp add: asc_def)
  have z: "CROPS ! 0 = asc ''Wheat''" by (simp add: CROPS_def)
  have l: "0 < length CROPS" by (simp add: CROPS_def)
  have "mentionedCrop ascii_runtime (normalize_question ascii_runtime (asc ''Rice and wheat''))
        (asc ''Potato'') = CROPS ! 0"
    using mentionedCrop_first_in_CROPS [OF conforming_ascii_runtime,
        of "asc ''Rice and wheat''" "asc ''Potato''", THEN conjunct2, rule_format, OF l] w
    by simp
  with r z conforming_ascii_runtime show ?thesis by simp
qed

text \<open>
  C7: for every intent and every question, the score of the intent is the number of its
  keyword literals that occur in the question as a substring. A literal counts once
  however often it occurs, and a score is at most the length of the intent's keyword list.
\<close>

theorem scores_count_present_keywords:
  "scores q = map (\<lambda>e. (fst e, length (filter (\<lambda>t. sublist t q) (snd e)))) score_table
   \<and> list_all2 (\<lambda>s e. snd s \<le> length (snd e)) (scores q) score_table
   \<and> has q (t # ts) = (if sublist t q then 1 else 0) + has q ts"
proof (intro conjI)
  show "scores q = map (\<lambda>e. (fst e, length (filter (\<lambda>t. sublist t q) (snd e)))) score_table"
    by (simp add: scores_def has_count case_prod_unfold)
  show "list_all2 (\<lambda>s e. snd s \<le> length (snd e)) (scores q) score_table"
    by (simp add: scores_def list_all2_map1 case_prod_unfold has_le list.rel_refl)
  show "has q (t # ts) = (if sublist t q then 1 else 0) + has q ts"
    by (rule has_Cons)
qed







text \<open>
  C10: matching is by substring, not by word, so one word can score for two intents.
  In the one-word question \<open>kitna\<close> the price literal \<open>kitna\<close> and the disease literal
  \<open>kit\<close> both occur; price and disease score 1 each, nothing scores more, and price
  wins because it is declared first.
\<close>

theorem kitna_scores_price_and_disease:
  "normalize_question ascii_runtime (asc ''kitna'') = asc ''kitna''
   \<and> asc ''kitna'' \<in> set (the (map_of score_table Price))
   \<and> asc ''kit'' \<in> set (the (map_of score_table Disease))
   \<and> sublist (asc ''kit'') (asc ''kitna'')
   \<and> map_of (scores (asc ''kitna'')) Price = Some 1
   \<and> map_of (scores (asc ''kitna'')) Disease = Some 1
   \<and> take 2 (sort_desc (scores (asc ''kitna''))) = [(Price, 1), (Disease, 1)]
   \<and> classify (asc ''kitna'') = Price"
proof (intro conjI)
  show "normalize_question ascii_runtime (asc ''kitna'') = asc ''kitna''"
    by (simp add: normalize_question_def ascii_runtime_def asc_def lower_unit_def replace_punct_def
        is_punct_def is_space_def trim_def trim_end_def)
  show "asc ''kitna'' \<in> set (the (map_of score_table Price))"
    by (simp add: score_table_def asc_def)
  show "asc ''kit'' \<in> set (the (map_of score_table Disease))"
    by (simp add: score_table_def asc_def)
  show "sublist (asc ''kit'') (asc ''kitna'')"
    unfolding str_includes_sublist [symmetric] by (simp add: asc_def)
  show "map_of (scores (asc ''kitna'')) Price = Some 1"
    by (simp add: scores_kitna)
  show "map_of (scores (asc ''kitna'')) Disease = Some 1"
    by (simp add: scores_kitna)
  show "take 2 (sort_desc (scores (asc ''kitna''))) = [(Price, 1), (Disease, 1)]"
    by (simp add: scores_kitna sort_desc_def)
  show "classify (asc ''kitna'') = Price"
    by (simp add: classify_def topIntent_def scores_kitna sort_desc_def)
qed

end
